theory Spec2Isabelle
  imports Complex_Main "HOL-Library.Multiset"
begin

section \<open>Semantic versions\<close>

text \<open>
  The migration service of \<^verbatim>\<open>src/bp/core/services/migration/index.ts\<close> compares versions
  with the \<^verbatim>\<open>semver\<close> package. A parsed version has three numbers and a list of prerelease
  identifiers, each numeric or alphanumeric. The functions below follow the package's
  \<^verbatim>\<open>compareIdentifiers\<close>, \<^verbatim>\<open>compareMain\<close>, \<^verbatim>\<open>comparePre\<close> and \<^verbatim>\<open>compare\<close>, which
  return -1, 0 or 1.
\<close>

datatype ident = Numeric nat | Alphanum string

datatype semver = SemVer (major: nat) (minor: nat) (patch: nat) (prerelease: "ident list")

text \<open>The \<^verbatim>\<open><\<close> of JavaScript on two strings: by code unit, a proper prefix first.\<close>

fun str_less :: "string \<Rightarrow> string \<Rightarrow> bool" where
  "str_less [] [] = False"
| "str_less [] (y # ys) = True"
| "str_less (x # xs) [] = False"
| "str_less (x # xs) (y # ys) =
     (if x = y then str_less xs ys else (of_char x :: nat) < of_char y)"

definition compareNumbers :: "nat \<Rightarrow> nat \<Rightarrow> int" where
  "compareNumbers a b = (if a = b then 0 else if a < b then - 1 else 1)"

fun compareIdentifiers :: "ident \<Rightarrow> ident \<Rightarrow> int" where
  "compareIdentifiers (Numeric a) (Numeric b) = compareNumbers a b"
| "compareIdentifiers (Numeric a) (Alphanum b) = - 1"
| "compareIdentifiers (Alphanum a) (Numeric b) = 1"
| "compareIdentifiers (Alphanum a) (Alphanum b) =
     (if a = b then 0 else if str_less a b then - 1 else 1)"

definition compareMain :: "semver \<Rightarrow> semver \<Rightarrow> int" where
  "compareMain a b =
     (if compareNumbers (major a) (major b) \<noteq> 0 then compareNumbers (major a) (major b)
      else if compareNumbers (minor a) (minor b) \<noteq> 0 then compareNumbers (minor a) (minor b)
      else compareNumbers (patch a) (patch b))"

text \<open>The \<^verbatim>\<open>do ... while (++i)\<close> loop of \<^verbatim>\<open>comparePre\<close>, walking both lists in step.\<close>

fun comparePreLoop :: "ident list \<Rightarrow> ident list \<Rightarrow> int" where
  "comparePreLoop [] [] = 0"
| "comparePreLoop (a # as) [] = 1"
| "comparePreLoop [] (b # bs) = - 1"
| "comparePreLoop (a # as) (b # bs) =
     (if a = b then comparePreLoop as bs else compareIdentifiers a b)"

definition comparePre :: "semver \<Rightarrow> semver \<Rightarrow> int" where
  "comparePre a b =
     (if prerelease a \<noteq> [] \<and> prerelease b = [] then - 1
      else if prerelease a = [] \<and> prerelease b \<noteq> [] then 1
      else if prerelease a = [] \<and> prerelease b = [] then 0
      else comparePreLoop (prerelease a) (prerelease b))"

definition compare :: "semver \<Rightarrow> semver \<Rightarrow> int" where
  "compare a b = (if compareMain a b \<noteq> 0 then compareMain a b else comparePre a b)"

definition gt :: "semver \<Rightarrow> semver \<Rightarrow> bool" where
  "gt a b = (compare a b > 0)"

definition lte :: "semver \<Rightarrow> semver \<Rightarrow> bool" where
  "lte a b = (compare a b \<le> 0)"

text \<open>
  A version text of the program (a JavaScript string) is modelled by what the package makes
  of it: \<open>Valid v\<close> is the canonical text of the full version \<open>v\<close>, and \<open>Invalid s\<close> is
  any other text \<open>s\<close>, one that the package accepts neither as a version nor as the operand
  of a comparator. \<open>Invalid []\<close> is the empty string, the only falsy text.
\<close>

datatype vtext = Valid semver | Invalid string

fun valid :: "vtext \<Rightarrow> semver option" where
  "valid (Valid v) = Some v"
| "valid (Invalid s) = None"

definition truthy :: "vtext \<Rightarrow> bool" where
  "truthy t = (t \<noteq> Invalid [])"

text \<open>\<^verbatim>\<open>a || b\<close> on an optional text and a text.\<close>

fun or_else :: "vtext option \<Rightarrow> vtext \<Rightarrow> vtext" where
  "or_else None d = d"
| "or_else (Some t) d = (if truthy t then t else d)"

definition same_tuple :: "semver \<Rightarrow> semver \<Rightarrow> bool" where
  "same_tuple a b = (major a = major b \<and> minor a = minor b \<and> patch a = patch b)"

text \<open>
  \<^verbatim>\<open>semver.satisfies(version, `>${lo} <= ${hi}`)\<close>. A range that does not parse, or a
  version that is \<^verbatim>\<open>null\<close>, gives \<^verbatim>\<open>false\<close>. Both comparators must hold; a version with
  prerelease identifiers is accepted only when one of the two bounds has prerelease
  identifiers too and the same major, minor and patch numbers.
\<close>

definition satisfies :: "semver option \<Rightarrow> vtext \<Rightarrow> vtext \<Rightarrow> bool" where
  "satisfies version lo hi =
     (case version of None \<Rightarrow> False
      | Some v \<Rightarrow>
        (case valid lo of None \<Rightarrow> False
         | Some l \<Rightarrow>
           (case valid hi of None \<Rightarrow> False
            | Some h \<Rightarrow>
                gt v l \<and> lte v h \<and>
                (prerelease v = []
                 \<or> (prerelease l \<noteq> [] \<and> same_tuple l v)
                 \<or> (prerelease h \<noteq> [] \<and> same_tuple h v)))))"

section \<open>Numbers\<close>

text \<open>
  The \<^verbatim>\<open>date\<close> of a migration file is a JavaScript number: \<^verbatim>\<open>Number(timestamp)\<close>, with no
  check. It can be a fraction, an infinity, or \<^verbatim>\<open>NaN\<close> when the file name has no numeric
  second part. A finite number is modelled by the rational it denotes. The comparisons are
  those of the language: every comparison with \<^verbatim>\<open>NaN\<close> is false, and \<^verbatim>\<open>NaN === NaN\<close> too.
\<close>

datatype number = NaN | NegInfinity | Finite rat | Infinity

fun js_lt :: "number \<Rightarrow> number \<Rightarrow> bool" where
  "js_lt NaN b = False"
| "js_lt a NaN = False"
| "js_lt NegInfinity NegInfinity = False"
| "js_lt NegInfinity b = True"
| "js_lt (Finite x) (Finite y) = (x < y)"
| "js_lt (Finite x) Infinity = True"
| "js_lt (Finite x) NegInfinity = False"
| "js_lt Infinity b = False"

definition js_gt :: "number \<Rightarrow> number \<Rightarrow> bool" where
  "js_gt a b = js_lt b a"

definition js_eq :: "number \<Rightarrow> number \<Rightarrow> bool" where
  "js_eq a b = (a \<noteq> NaN \<and> a = b)"

definition js_le :: "number \<Rightarrow> number \<Rightarrow> bool" where
  "js_le a b = (js_lt a b \<or> js_eq a b)"

text \<open>
  \<^verbatim>\<open>compareAscending\<close> of lodash, on two numbers: the tests for \<^verbatim>\<open>null\<close>, \<^verbatim>\<open>undefined\<close>
  and symbols are all false, and \<^verbatim>\<open>valIsReflexive\<close> is \<^verbatim>\<open>value === value\<close>, false for
  \<^verbatim>\<open>NaN\<close> only. So \<^verbatim>\<open>NaN\<close> compares as greater than anything, another \<^verbatim>\<open>NaN\<close> included.
\<close>

definition compareAscending :: "number \<Rightarrow> number \<Rightarrow> int" where
  "compareAscending val other =
     (if \<not> js_eq val other
      then (if js_gt val other \<or> val = NaN then 1
            else if js_lt val other \<or> other = NaN then - 1
            else 0)
      else 0)"

section \<open>Migration files, loaded migrations and the service\<close>

datatype MigrationType = Database | Config | Content

datatype MigrationTarget = Core | Bot

record MigrationResult =
  success :: bool
  message :: "string option"

text \<open>
  A handler (\<^verbatim>\<open>up\<close> or \<^verbatim>\<open>down\<close>) is code of a migration file, outside the service. The
  model keeps what an invocation yields: the result the promise resolves to, or the message
  of the error it rejects with.
\<close>

datatype handler = Resolves MigrationResult | Rejects string

text \<open>
  \<^verbatim>\<open>interface MigrationFile\<close>. The \<^verbatim>\<open>version\<close> field holds what \<^verbatim>\<open>semver.valid\<close> returned
  in \<^verbatim>\<open>_getMigrations\<close>: a canonical version or \<^verbatim>\<open>null\<close>. The \<^verbatim>\<open>date\<close> is what
  \<^verbatim>\<open>Number\<close> made of the timestamp part of the file name.
\<close>

record MigrationFile =
  date :: number
  version :: "semver option"
  location :: string
  filename :: string
  title :: string

text \<open>
  \<^verbatim>\<open>_.sortBy(files, x => x.date)\<close> and \<^verbatim>\<open>_.orderBy(files, 'date')\<close>: lodash sorts with the
  comparator \<^verbatim>\<open>compareAscending\<close> on the dates and, when that gives 0, by the index in the
  input, so that the sort is stable. The sort itself is the engine's; it is modelled as an
  insertion from left to right, each element going before the first one it compares as
  less than. The element inserted has the greater index, so a 0 sends it on. Unless two
  dates are \<^verbatim>\<open>NaN\<close> the comparator is a consistent order, and every sort gives this
  result. Two dates \<^verbatim>\<open>NaN\<close> each compare as greater than the other, and the order of the
  two is then the engine's; a \<^verbatim>\<open>NaN\<close> compares as greater than every number all the
  same, and the files with the date \<^verbatim>\<open>NaN\<close> end up last, here in the order of the input.
\<close>

fun insert_by_date :: "MigrationFile \<Rightarrow> MigrationFile list \<Rightarrow> MigrationFile list" where
  "insert_by_date x [] = [x]"
| "insert_by_date x (y # ys) =
     (if compareAscending (date x) (date y) < 0 then x # y # ys
      else y # insert_by_date x ys)"

definition sortBy_date :: "MigrationFile list \<Rightarrow> MigrationFile list" where
  "sortBy_date files = foldl (\<lambda>sorted x. insert_by_date x sorted) [] files"

text \<open>\<^verbatim>\<open>interface Migration\<close>, the \<^verbatim>\<open>info\<close> object flattened; \<^verbatim>\<open>up\<close> is required.\<close>

record Migration =
  info_description :: string
  info_target :: "MigrationTarget option"
  info_type :: MigrationType
  up :: handler
  down :: "handler option"

text \<open>
  The fields of \<^verbatim>\<open>class MigrationService\<close>. \<^verbatim>\<open>loadedMigrations\<close> is an object used as a
  dictionary from file name to migration: an association list in insertion order.
\<close>

record MigrationService =
  targetVersion :: vtext
  configVersion :: vtext
  dbVersion :: vtext
  loadedMigrations :: "(string \<times> Migration) list"

record filter_opts =
  opt_isDown :: bool
  opt_type :: "MigrationType option"
  opt_target :: "MigrationTarget option"

text \<open>The second \<^verbatim>\<open>filter\<close> callback of \<^verbatim>\<open>filterMigrations\<close>, lines 341 to 349.\<close>

definition content_ok :: "MigrationService \<Rightarrow> filter_opts \<Rightarrow> MigrationFile \<Rightarrow> bool" where
  "content_ok srv opts file =
     (case map_of (loadedMigrations srv) (filename file) of
        None \<Rightarrow> False
      | Some content \<Rightarrow>
          ((opt_isDown opts \<and> down content \<noteq> None) \<or> \<not> opt_isDown opts) \<and>
          (opt_type opts = None \<or> opt_type opts = Some (info_type content)) \<and>
          (opt_target opts = None \<or> opt_target opts = info_target content))"

definition in_range :: "MigrationService \<Rightarrow> vtext \<Rightarrow> bool \<Rightarrow> MigrationFile \<Rightarrow> bool" where
  "in_range srv currentVersion isDown file =
     (if isDown then satisfies (version file) (targetVersion srv) currentVersion
      else satisfies (version file) currentVersion (targetVersion srv))"

definition filterMigrations ::
  "MigrationService \<Rightarrow> MigrationFile list \<Rightarrow> vtext \<Rightarrow> filter_opts \<Rightarrow> MigrationFile list" where
  "filterMigrations srv files currentVersion opts =
     (let filteredFiles = filter (in_range srv currentVersion (opt_isDown opts)) files
      in if loadedMigrations srv = [] then filteredFiles
         else filter (content_ok srv opts) filteredFiles)"

text \<open>
  \<^verbatim>\<open>getMigrationsToExecute\<close>; \<open>isDown\<close> is \<^verbatim>\<open>process.MIGRATE_CMD === 'down'\<close>.
\<close>

definition getMigrationsToExecute ::
  "bool \<Rightarrow> MigrationService \<Rightarrow> MigrationFile list \<Rightarrow> MigrationFile list" where
  "getMigrationsToExecute isDown srv allMigrations =
     sortBy_date
       (filterMigrations srv allMigrations (dbVersion srv)
          \<lparr>opt_isDown = isDown, opt_type = Some Database, opt_target = None\<rparr>
        @ filterMigrations srv allMigrations (configVersion srv)
          \<lparr>opt_isDown = isDown, opt_type = Some Config, opt_target = None\<rparr>
        @ filterMigrations srv allMigrations (configVersion srv)
          \<lparr>opt_isDown = isDown, opt_type = Some Content, opt_target = None\<rparr>)"


section \<open>The process, its collaborators and the world\<close>

text \<open>
  The directives the service reads from \<^verbatim>\<open>process\<close> and \<^verbatim>\<open>process.env\<close>. A field that the
  code only passes through \<^verbatim>\<open>yn\<close> or tests for truthiness holds the outcome of that test:
  \<open>SKIP_MIGRATIONS\<close> is \<^verbatim>\<open>yn(process.env.SKIP_MIGRATIONS)\<close>, \<open>TESTMIG_ALL\<close> and
  \<open>TESTMIG_NEW\<close> are the truthiness of the variables and \<open>TESTMIG_NEW_yn\<close> is
  \<^verbatim>\<open>yn(process.core_env.TESTMIG_NEW)\<close>. An optional field is \<open>None\<close> when \<^verbatim>\<open>undefined\<close>.
\<close>

record process =
  SKIP_MIGRATIONS :: bool
  MIGRATE_TARGET :: "vtext option"
  MIGRATE_CMD :: "string option"
  MIGRATE_DRYRUN :: bool
  AUTO_MIGRATE :: bool
  IS_FAILSAFE :: bool
  BOTPRESS_VERSION :: vtext
  TESTMIG_BP_VERSION :: "vtext option"
  TESTMIG_CONFIG_VERSION :: "vtext option"
  TESTMIG_DB_VERSION :: "vtext option"
  TESTMIG_ALL :: bool
  TESTMIG_NEW :: bool
  TESTMIG_NEW_yn :: bool
  TESTMIG_IGNORE_LIST :: "string option"
  APP_DATA_PATH :: "string option"
  LOADED_MODULES :: "(string \<times> string) list"

text \<open>
  What lies outside the service and does not change during a run: the files \<^verbatim>\<open>glob.sync\<close>
  finds under a root, as paths relative to it; \<^verbatim>\<open>Number\<close> of the language on a text or
  on \<^verbatim>\<open>undefined\<close>, and \<^verbatim>\<open>semver.valid\<close> on a raw text; the default export of the module
  at a location; and, for each write the service performs, the error it throws, if it
  throws. Reads (the configuration, the \<^verbatim>\<open>srv_metadata\<close> query, the migration options)
  succeed.
\<close>

record collaborators =
  glob_sync :: "string \<Rightarrow> string list"
  Number :: "string option \<Rightarrow> number"
  semver_valid :: "string \<Rightarrow> semver option"
  require_default :: "string \<Rightarrow> Migration"
  removeSync_error :: "string option"
  srv_migrations_insert_error :: "string option"
  srv_metadata_insert_error :: "string option"
  mergeBotpressConfig_error :: "string option"
  coreMigrationCompleted_error :: "string option"

datatype level = Info | Warn | Err

text \<open>
  What a log line says. The two banners are kept as their data, without the layout that
  \<^verbatim>\<open>chalk\<close> and \<^verbatim>\<open>center\<close> give them: \<open>StatusBanner dry config db target n\<close> is the banner
  of \<^verbatim>\<open>displayMigrationStatus\<close> (\<open>db\<close> is shown only when it differs from \<open>config\<close>), and
  \<open>ExecutingBanner n\<close> the one of \<^verbatim>\<open>executeMigrations\<close>.
\<close>

datatype logmsg =
    Text string
  | StatusBanner bool vtext "vtext option" vtext nat
  | ExecutingBanner nat

text \<open>\<^verbatim>\<open>interface MigrationEntry\<close>, without its time stamp.\<close>

record MigrationEntry =
  initialVersion :: vtext
  entry_targetVersion :: vtext
  details :: "(level \<times> logmsg) list"

text \<open>
  The trace records, in order, what the service does to its collaborators: a directory
  globbed, a module loaded, a line logged, the cache directory removed, a handler invoked
  (with the file name, and \<open>True\<close> for \<^verbatim>\<open>down\<close>), and the call of
  \<^verbatim>\<open>botMigration.coreMigrationCompleted\<close>, whose code is in another file.
\<close>

datatype event =
    Glob string
  | Require string
  | Log level logmsg
  | RemoveCache
  | Invoke string bool
  | CoreMigrationCompleted MigrationEntry "MigrationFile list"

text \<open>
  The durable state: the \<^verbatim>\<open>version\<close> of the Botpress configuration, the
  \<^verbatim>\<open>server_version\<close> of the rows of \<^verbatim>\<open>srv_metadata\<close> (newest first), the rows of
  \<^verbatim>\<open>srv_migrations\<close>, and whether the cache directory exists.
\<close>

record world =
  botpress_config_version :: vtext
  srv_metadata :: "vtext list"
  srv_migrations :: "MigrationEntry list"
  cache_exists :: bool
  trace :: "event list"

text \<open>
  How a call ends: it returns, it ends the process (\<^verbatim>\<open>process.exit(0)\<close>), or it throws
  (for an \<^verbatim>\<open>async\<close> function: its promise rejects).
\<close>

datatype 'a outcome = Returns 'a | Exits | Throws string

definition emit :: "event \<Rightarrow> world \<Rightarrow> world" where
  "emit e w = w\<lparr>trace := trace w @ [e]\<rparr>"

definition log :: "level \<Rightarrow> logmsg \<Rightarrow> world \<Rightarrow> world" where
  "log l m w = emit (Log l m) w"

text \<open>The constructor: \<^verbatim>\<open>MIGRATE_TARGET || TESTMIG_BP_VERSION || BOTPRESS_VERSION\<close>.\<close>

definition new_MigrationService :: "process \<Rightarrow> MigrationService" where
  "new_MigrationService p =
     \<lparr>targetVersion =
        or_else (MIGRATE_TARGET p) (or_else (TESTMIG_BP_VERSION p) (BOTPRESS_VERSION p)),
      configVersion = Invalid ''undefined'',
      dbVersion = Invalid ''undefined'',
      loadedMigrations = []\<rparr>"

text \<open>\<^verbatim>\<open>const isDown = process.MIGRATE_CMD === 'down'\<close>.\<close>

definition cmd_isDown :: "process \<Rightarrow> bool" where
  "cmd_isDown p = (MIGRATE_CMD p = Some ''down'')"

section \<open>Discovery\<close>

text \<open>
  The string functions that \<^verbatim>\<open>_getMigrations\<close> uses: \<^verbatim>\<open>s.split(c)\<close> for a character,
  \<^verbatim>\<open>path.basename\<close> of a path with \<^verbatim>\<open>/\<close>, \<^verbatim>\<open>replace(/_/g, '.')\<close>, an array element that
  may be \<^verbatim>\<open>undefined\<close>, and \<^verbatim>\<open>replace(/\.js$/i, '')\<close>.
\<close>

fun split_on :: "char \<Rightarrow> string \<Rightarrow> string list" where
  "split_on d [] = [[]]"
| "split_on d (c # cs) =
     (if c = d then [] # split_on d cs
      else (case split_on d cs of [] \<Rightarrow> [[c]] | x # xs \<Rightarrow> (c # x) # xs))"

definition basename :: "string \<Rightarrow> string" where
  "basename path = last (split_on CHR ''/'' path)"

definition replace_underscores :: "string \<Rightarrow> string" where
  "replace_underscores s = map (\<lambda>c. if c = CHR ''_'' then CHR ''.'' else c) s"

fun element :: "'a list \<Rightarrow> nat \<Rightarrow> 'a option" where
  "element [] i = None"
| "element (x # xs) 0 = Some x"
| "element (x # xs) (Suc i) = element xs i"

definition strip_js :: "string \<Rightarrow> string" where
  "strip_js s =
     (case rev s of
        c3 # c2 # c1 # rest \<Rightarrow>
          if c1 = CHR ''.'' \<and> (c2 = CHR ''j'' \<or> c2 = CHR ''J'') \<and> (c3 = CHR ''s'' \<or> c3 = CHR ''S'')
          then rev rest else s
      | _ \<Rightarrow> s)"

text \<open>
  The callback of \<^verbatim>\<open>map\<close> in \<^verbatim>\<open>_getMigrations\<close>, lines 308 to 317: the base name is split
  at \<^verbatim>\<open>-\<close> into the raw version, the timestamp and the title, of which the last two may be
  missing. \<^verbatim>\<open>path.join\<close> is written without its normalisation.
\<close>

definition descriptor :: "collaborators \<Rightarrow> string \<Rightarrow> string \<Rightarrow> MigrationFile" where
  "descriptor c rootPath filepath =
     (let parts = split_on CHR ''-'' (basename filepath);
          rawVersion = (case element parts 0 of None \<Rightarrow> [] | Some r \<Rightarrow> r);
          timestamp = element parts 1;
          rawTitle = element parts 2
      in \<lparr>date = Number c timestamp,
          version = semver_valid c (replace_underscores rawVersion),
          location = rootPath @ ''/'' @ filepath,
          filename = basename filepath,
          title = strip_js (case rawTitle of None \<Rightarrow> [] | Some t \<Rightarrow> t)\<rparr>)"

text \<open>\<^verbatim>\<open>_getMigrations\<close>: the descriptors of the files under a root, ordered by date.\<close>

definition getMigrations :: "collaborators \<Rightarrow> string \<Rightarrow> world \<Rightarrow> MigrationFile list \<times> world" where
  "getMigrations c rootPath w =
     (sortBy_date (map (descriptor c rootPath) (glob_sync c rootPath)), emit (Glob rootPath) w)"

definition core_root :: string where
  "core_root = ''migrations''"

definition module_root :: "string \<times> string \<Rightarrow> string" where
  "module_root m = snd m @ ''/dist/migrations''"

fun getMigrations_each ::
  "collaborators \<Rightarrow> string list \<Rightarrow> world \<Rightarrow> MigrationFile list \<times> world" where
  "getMigrations_each c [] w = ([], w)"
| "getMigrations_each c (r # rs) w =
     (case getMigrations c r w of
        (found, w1) \<Rightarrow>
          (case getMigrations_each c rs w1 of (others, w2) \<Rightarrow> (found @ others, w2)))"

text \<open>The body of \<^verbatim>\<open>migrations.map(file => ...)\<close> in \<^verbatim>\<open>getAllMigrations\<close>.\<close>

fun load_each ::
  "collaborators \<Rightarrow> MigrationFile list \<Rightarrow> MigrationService \<Rightarrow> world \<Rightarrow> MigrationService \<times> world" where
  "load_each c [] srv w = (srv, w)"
| "load_each c (file # files) srv w =
     (if map_of (loadedMigrations srv) (filename file) = None
      then load_each c files
             (srv\<lparr>loadedMigrations :=
                    loadedMigrations srv @ [(filename file, require_default c (location file))]\<rparr>)
             (emit (Require (location file)) w)
      else load_each c files srv w)"

definition getAllMigrations ::
  "process \<Rightarrow> collaborators \<Rightarrow> MigrationService \<Rightarrow> world
     \<Rightarrow> MigrationFile list \<times> MigrationService \<times> world" where
  "getAllMigrations p c srv w =
     (case getMigrations_each c (core_root # map module_root (LOADED_MODULES p)) w of
        (migrations, w1) \<Rightarrow>
          (case load_each c migrations srv w1 of (srv1, w2) \<Rightarrow> (migrations, srv1, w2)))"

section \<open>Version detection\<close>

text \<open>
  \<^verbatim>\<open>_getCurrentDbVersion\<close>: the newest row of \<^verbatim>\<open>srv_metadata\<close>, and the configuration
  version of the service when there is no row or its version is empty.
\<close>

definition getCurrentDbVersion :: "MigrationService \<Rightarrow> world \<Rightarrow> vtext" where
  "getCurrentDbVersion srv w =
     (case srv_metadata w of
        [] \<Rightarrow> configVersion srv
      | server_version # _ \<Rightarrow> if truthy server_version then server_version else configVersion srv)"

text \<open>
  \<^verbatim>\<open>versions.sort(semver.compare)\<close>: with fewer than two elements nothing is compared; with
  more, comparing a \<^verbatim>\<open>null\<close> version throws.
\<close>

fun insort_version :: "semver \<Rightarrow> semver list \<Rightarrow> semver list" where
  "insort_version v [] = [v]"
| "insort_version v (x # xs) =
     (if compare v x \<le> 0 then v # x # xs else x # insort_version v xs)"

fun all_versions :: "semver option list \<Rightarrow> semver list option" where
  "all_versions [] = Some []"
| "all_versions (None # vs) = None"
| "all_versions (Some v # vs) =
     (case all_versions vs of None \<Rightarrow> None | Some xs \<Rightarrow> Some (v # xs))"

definition sort_versions :: "semver option list \<Rightarrow> string + semver option list" where
  "sort_versions vs =
     (if length vs < 2 then Inr vs
      else (case all_versions vs of
              None \<Rightarrow> Inl ''Invalid Version: null''
            | Some xs \<Rightarrow> Inr (map Some (foldr insort_version xs []))))"

text \<open>The text that \<^verbatim>\<open>_.last(versions)\<close> gives when used as a version.\<close>

definition last_version :: "semver option list \<Rightarrow> vtext" where
  "last_version vs =
     (if vs = [] then Invalid ''undefined''
      else (case last vs of None \<Rightarrow> Invalid ''null'' | Some v \<Rightarrow> Valid v))"

definition invalid_target :: "process \<Rightarrow> bool" where
  "invalid_target p =
     (case MIGRATE_TARGET p of None \<Rightarrow> False | Some t \<Rightarrow> truthy t \<and> valid t = None)"

definition detectAndSetupVersions ::
  "process \<Rightarrow> MigrationFile list \<Rightarrow> MigrationService \<Rightarrow> world
     \<Rightarrow> unit outcome \<times> MigrationService \<times> world" where
  "detectAndSetupVersions p migrations srv w =
     (if invalid_target p
      then (Exits, srv,
            log Err
              (Text ''A target version was specified but the format is invalid. Valid format: 12.0.0'')
              w)
      else
        let srv1 = srv\<lparr>configVersion :=
                     or_else (TESTMIG_CONFIG_VERSION p) (botpress_config_version w)\<rparr>;
            srv2 = srv1\<lparr>dbVersion :=
                     or_else (TESTMIG_DB_VERSION p) (getCurrentDbVersion srv1 w)\<rparr>
        in if TESTMIG_ALL p \<or> TESTMIG_NEW p
           then (case sort_versions (map version migrations) of
                   Inl e \<Rightarrow> (Throws e, srv2, w)
                 | Inr versions \<Rightarrow>
                     (Returns (),
                      srv2\<lparr>targetVersion := last_version versions,
                           configVersion :=
                             (if TESTMIG_NEW_yn p then BOTPRESS_VERSION p
                              else Valid (SemVer 12 0 0 []))\<rparr>,
                      w))
           else (Returns (), srv2, w))"


section \<open>Displaying the plan\<close>

text \<open>The constant \<^verbatim>\<open>types\<close>; its keys are enumerated in the order written.\<close>

fun types :: "MigrationType \<Rightarrow> string" where
  "types Database = ''Database Changes''"
| "types Config = ''Config File Changes''"
| "types Content = ''Changes to Content Files (*.json)''"

text \<open>
  \<^verbatim>\<open>missingMigrations.map(x => this.loadedMigrations[x.filename].info)\<close>: \<open>None\<close> when a
  file has no loaded migration, where the property access throws a \<^verbatim>\<open>TypeError\<close>.
\<close>

fun infos :: "(string \<times> Migration) list \<Rightarrow> MigrationFile list \<Rightarrow> Migration list option" where
  "infos loaded [] = Some []"
| "infos loaded (x # xs) =
     (case map_of loaded (filename x) of
        None \<Rightarrow> None
      | Some m \<Rightarrow> (case infos loaded xs of None \<Rightarrow> None | Some ms \<Rightarrow> Some (m # ms)))"

definition change_line :: "bool \<Rightarrow> Migration \<Rightarrow> event" where
  "change_line dn x =
     Log Warn (Text (''- '' @ (if dn then ''[rollback]'' else []) @ '' '' @ info_description x))"

definition type_lines :: "bool \<Rightarrow> Migration list \<Rightarrow> MigrationType \<Rightarrow> event list" where
  "type_lines dn migrations ty =
     Log Warn (Text (types ty)) #
     (let filtered = filter (\<lambda>x. info_type x = ty) migrations
      in if filtered \<noteq> [] then map (change_line dn) filtered
         else [Log Warn (Text ''- None'')])"

definition status_lines :: "process \<Rightarrow> MigrationService \<Rightarrow> Migration list \<Rightarrow> event list" where
  "status_lines p srv migrations =
     Log Warn
       (StatusBanner (MIGRATE_DRYRUN p) (configVersion srv)
          (if configVersion srv \<noteq> dbVersion srv then Some (dbVersion srv) else None)
          (targetVersion srv) (length migrations))
     # concat (map (type_lines (cmd_isDown p) migrations) [Database, Config, Content])"

definition displayMigrationStatus ::
  "process \<Rightarrow> MigrationService \<Rightarrow> MigrationFile list \<Rightarrow> world \<Rightarrow> unit outcome \<times> world" where
  "displayMigrationStatus p srv missingMigrations w =
     (case infos (loadedMigrations srv) missingMigrations of
        None \<Rightarrow> (Throws ''TypeError'', w)
      | Some migrations \<Rightarrow>
          (Returns (), w\<lparr>trace := trace w @ status_lines p srv migrations\<rparr>))"

section \<open>Executing the plan\<close>

text \<open>A text between double quotes.\<close>

definition quoted :: "string \<Rightarrow> string" where
  "quoted s = CHR 0x22 # s @ [CHR 0x22]"

text \<open>\<^verbatim>\<open>filename.includes(x)\<close>, and the test against the ignore list split at commas.\<close>

fun starts_with :: "string \<Rightarrow> string \<Rightarrow> bool" where
  "starts_with s [] = True"
| "starts_with [] (x # xs) = False"
| "starts_with (c # cs) (x # xs) = (c = x \<and> starts_with cs xs)"

fun includes_str :: "string \<Rightarrow> string \<Rightarrow> bool" where
  "includes_str [] x = starts_with [] x"
| "includes_str (c # cs) x = (starts_with (c # cs) x \<or> includes_str cs x)"

definition ignored :: "process \<Rightarrow> string \<Rightarrow> bool" where
  "ignored p name =
     (case TESTMIG_IGNORE_LIST p of
        None \<Rightarrow> False
      | Some l \<Rightarrow> filter (\<lambda>x. includes_str name x) (split_on CHR '','' l) \<noteq> [])"

text \<open>\<^verbatim>\<open>result.message || 'Success'\<close>: the default replaces a missing or empty message.\<close>

definition message_or :: "MigrationResult \<Rightarrow> string \<Rightarrow> string" where
  "message_or result d =
     (case message result of None \<Rightarrow> d | Some m \<Rightarrow> if m = [] then d else m)"

text \<open>
  The handler that the body of the loop calls, lines 204 to 209: \<^verbatim>\<open>down\<close> when going down
  and there is one, \<^verbatim>\<open>up\<close> when going up, and none otherwise, where \<^verbatim>\<open>result\<close> stays
  \<^verbatim>\<open>undefined\<close>.
\<close>

definition handler_called :: "bool \<Rightarrow> Migration \<Rightarrow> handler option" where
  "handler_called dn m =
     (if dn \<and> down m \<noteq> None then down m
      else if \<not> dn then Some (up m)
      else None)"

text \<open>
  \<^verbatim>\<open>Promise.mapSeries(missingMigrations, ...)\<close>, one file after the other, with the flag
  \<^verbatim>\<open>hasFailures\<close>. A callback that throws ends the series: reading a property of a
  migration that is not loaded, or of a \<^verbatim>\<open>result\<close> that is \<^verbatim>\<open>undefined\<close>, throws a
  \<^verbatim>\<open>TypeError\<close>, and a handler that rejects throws its error.
\<close>

fun run_each ::
  "process \<Rightarrow> MigrationService \<Rightarrow> MigrationFile list \<Rightarrow> bool \<Rightarrow> world \<Rightarrow> bool outcome \<times> world" where
  "run_each p srv [] hasFailures w = (Returns hasFailures, w)"
| "run_each p srv (file # files) hasFailures w =
     (if ignored p (filename file)
      then run_each p srv files hasFailures
             (log Info (Text (''Skipping ignored migration file '' @ quoted (filename file))) w)
      else
        let w1 = log Info (Text (''Running '' @ filename file)) w
        in (case map_of (loadedMigrations srv) (filename file) of
              None \<Rightarrow> (Throws ''TypeError'', w1)
            | Some m \<Rightarrow>
                (case handler_called (cmd_isDown p) m of
                   None \<Rightarrow> (Throws ''TypeError'', w1)
                 | Some h \<Rightarrow>
                     let w2 = emit (Invoke (filename file) (cmd_isDown p)) w1
                     in (case h of
                           Rejects e \<Rightarrow> (Throws e, w2)
                         | Resolves result \<Rightarrow>
                             if success result
                             then run_each p srv files hasFailures
                                    (log Info (Text (''- '' @ message_or result ''Success'')) w2)
                             else run_each p srv files True
                                    (log Err (Text (''- '' @ message_or result ''Failure'')) w2)))))"

text \<open>The \<^verbatim>\<open>try\<close> block that clears the cache; \<^verbatim>\<open>path.join\<close> throws on \<^verbatim>\<open>undefined\<close>.\<close>

definition clear_cache :: "process \<Rightarrow> collaborators \<Rightarrow> world \<Rightarrow> world" where
  "clear_cache p c w =
     (case APP_DATA_PATH p of
        None \<Rightarrow> log Warn (Text ''Could not clear cache'') w
      | Some d \<Rightarrow>
          if d \<noteq> [] \<and> cache_exists w
          then (case removeSync_error c of
                  Some e \<Rightarrow> log Warn (Text ''Could not clear cache'') (emit RemoveCache w)
                | None \<Rightarrow>
                    log Info (Text ''Cleared cache'') (emit RemoveCache (w\<lparr>cache_exists := False\<rparr>)))
          else w)"

definition plural :: "nat \<Rightarrow> string" where
  "plural n = (if n = 1 then [] else ''s'')"

text \<open>The line logged after the series when a unit has reported a failure.\<close>

definition steps_failed :: logmsg where
  "steps_failed = Text ''Some steps failed to complete. Please fix errors manually, then restart Botpress so the update process may finish.''"

definition executeMigrations ::
  "process \<Rightarrow> collaborators \<Rightarrow> MigrationService \<Rightarrow> MigrationFile list \<Rightarrow> world
     \<Rightarrow> unit outcome \<times> world" where
  "executeMigrations p c srv missingMigrations w =
     (let w1 = log Info (ExecutingBanner (length missingMigrations)) w;
          w2 = clear_cache p c w1
      in (case run_each p srv missingMigrations False w2 of
            (Throws e, w3) \<Rightarrow> (Throws e, w3)
          | (Exits, w3) \<Rightarrow> (Exits, w3)
          | (Returns hasFailures, w3) \<Rightarrow>
              let w4 = (if hasFailures
                        then log Err steps_failed w3
                        else w3)
              in if hasFailures \<and> \<not> IS_FAILSAFE p then (Exits, w4)
                 else (case mergeBotpressConfig_error c of
                         Some e \<Rightarrow> (Throws e, w4)
                       | None \<Rightarrow>
                           (Returns (),
                            log Info
                              (Text (''Migration'' @ plural (length missingMigrations)
                                     @ '' completed successfully! ''))
                              (w4\<lparr>botpress_config_version := targetVersion srv\<rparr>)))))"

section \<open>Recording the run\<close>

text \<open>
  \<^verbatim>\<open>persistMigrationStatus\<close>. Only the insertion into \<^verbatim>\<open>srv_migrations\<close> is inside a
  \<^verbatim>\<open>try\<close>; the insertion into \<^verbatim>\<open>srv_metadata\<close> and the call of
  \<^verbatim>\<open>coreMigrationCompleted\<close> are awaited outside it.
\<close>

definition persistMigrationStatus ::
  "collaborators \<Rightarrow> MigrationService \<Rightarrow> (level \<times> logmsg) list \<Rightarrow> MigrationFile list \<Rightarrow> world
     \<Rightarrow> unit outcome \<times> world" where
  "persistMigrationStatus c srv logs migrationsToExecute w =
     (let entry = \<lparr>initialVersion = configVersion srv,
                   entry_targetVersion = targetVersion srv,
                   details = logs\<rparr>;
          w1 = (case srv_migrations_insert_error c of
                  Some e \<Rightarrow> log Warn (Text ''Couldn't save logs to database'') w
                | None \<Rightarrow> w\<lparr>srv_migrations := srv_migrations w @ [entry]\<rparr>)
      in (case (if dbVersion srv \<noteq> targetVersion srv then srv_metadata_insert_error c else None) of
            Some e \<Rightarrow> (Throws e, w1)
          | None \<Rightarrow>
              let w2 = (if dbVersion srv \<noteq> targetVersion srv
                        then w1\<lparr>srv_metadata := targetVersion srv # srv_metadata w1\<rparr>
                        else w1);
                  w3 = emit (CoreMigrationCompleted entry migrationsToExecute) w2
              in (case coreMigrationCompleted_error c of
                    Some e \<Rightarrow> (Throws e, w3)
                  | None \<Rightarrow> (Returns (), w3))))"

section \<open>The whole run\<close>

text \<open>What the listener of \<^verbatim>\<open>listenForAllLogs\<close> collects: the lines logged since it was set up.\<close>

fun logged :: "event list \<Rightarrow> (level \<times> logmsg) list" where
  "logged [] = []"
| "logged (Log l m # es) = (l, m) # logged es"
| "logged (e # es) = logged es"

definition initialize ::
  "process \<Rightarrow> collaborators \<Rightarrow> MigrationService \<Rightarrow> world
     \<Rightarrow> unit outcome \<times> MigrationService \<times> world" where
  "initialize p c srv w =
     (if SKIP_MIGRATIONS p then (Returns (), srv, w)
      else
        (case getAllMigrations p c srv w of
           (allMigrations, srv1, w1) \<Rightarrow>
             (case detectAndSetupVersions p allMigrations srv1 w1 of
                (Exits, srv2, w2) \<Rightarrow> (Exits, srv2, w2)
              | (Throws e, srv2, w2) \<Rightarrow> (Throws e, srv2, w2)
              | (Returns u, srv2, w2) \<Rightarrow>
                  let migrationsToExecute = getMigrationsToExecute (cmd_isDown p) srv2 allMigrations
                  in if migrationsToExecute = [] \<and> MIGRATE_CMD p = None
                     then (Returns (), srv2, w2)
                     else
                       (case displayMigrationStatus p srv2 migrationsToExecute w2 of
                          (Exits, w3) \<Rightarrow> (Exits, srv2, w3)
                        | (Throws e, w3) \<Rightarrow> (Throws e, srv2, w3)
                        | (Returns u, w3) \<Rightarrow>
                            if MIGRATE_DRYRUN p then (Exits, srv2, w3)
                            else if \<not> AUTO_MIGRATE p
                            then
                              let w4 = log Err (Text (''Botpress needs to migrate your data. Please make a copy of your data, then start it with '' @ quoted ''./bp --auto-migrate'')) w3
                              in if \<not> IS_FAILSAFE p then (Exits, srv2, w4)
                                 else (Returns (), srv2, w4)
                            else
                              (case executeMigrations p c srv2 migrationsToExecute w3 of
                                 (Exits, w5) \<Rightarrow> (Exits, srv2, w5)
                               | (Throws e, w5) \<Rightarrow> (Throws e, srv2, w5)
                               | (Returns u, w5) \<Rightarrow>
                                   let logs = logged (drop (length (trace w2)) (trace w5))
                                   in (case persistMigrationStatus c srv2 logs migrationsToExecute w5 of
                                         (Exits, w6) \<Rightarrow> (Exits, srv2, w6)
                                       | (Throws e, w6) \<Rightarrow> (Throws e, srv2, w6)
                                       | (Returns u, w6) \<Rightarrow>
                                           if MIGRATE_CMD p \<noteq> None then (Exits, srv2, w6)
                                           else (Returns (), srv2, w6)))))))"


section \<open>Notions of the specification\<close>

text \<open>
  The half-open interval \<open>(lo, hi]\<close> of versions, the marker that counts as current for a
  domain, and the units that fall due: the version of the unit lies in \<open>(current, target]\<close>
  for an upgrade and in \<open>(target, current]\<close> for a downgrade. These follow the words of the
  specification; the theorems compare them with the functions above.
\<close>

definition in_half_open :: "semver \<Rightarrow> semver \<Rightarrow> semver \<Rightarrow> bool" where
  "in_half_open v lo hi = (gt v lo \<and> lte v hi)"

fun current_marker :: "MigrationService \<Rightarrow> MigrationType \<Rightarrow> vtext" where
  "current_marker srv Database = dbVersion srv"
| "current_marker srv Config = configVersion srv"
| "current_marker srv Content = configVersion srv"

definition version_due :: "bool \<Rightarrow> MigrationService \<Rightarrow> MigrationType \<Rightarrow> MigrationFile \<Rightarrow> bool" where
  "version_due dn srv ty f =
     (case version f of None \<Rightarrow> False
      | Some v \<Rightarrow>
        (case valid (current_marker srv ty) of None \<Rightarrow> False
         | Some c \<Rightarrow>
           (case valid (targetVersion srv) of None \<Rightarrow> False
            | Some t \<Rightarrow> if dn then in_half_open v t c else in_half_open v c t)))"

text \<open>A unit is due when its version is, and, going down, when it has a \<^verbatim>\<open>down\<close> handler.\<close>

definition due :: "bool \<Rightarrow> MigrationService \<Rightarrow> MigrationFile \<Rightarrow> bool" where
  "due dn srv f =
     (case map_of (loadedMigrations srv) (filename f) of None \<Rightarrow> False
      | Some m \<Rightarrow> (\<not> dn \<or> down m \<noteq> None) \<and> version_due dn srv (info_type m) f)"

text \<open>
  The events that act on what a run is meant to change: removing the cache, invoking a
  handler, and handing the run over to the migration of the bots.
\<close>

fun acts :: "event \<Rightarrow> bool" where
  "acts RemoveCache = True"
| "acts (Invoke name dn) = True"
| "acts (CoreMigrationCompleted entry files) = True"
| "acts (Glob r) = False"
| "acts (Require l) = False"
| "acts (Log l m) = False"

definition acted :: "world \<Rightarrow> event list" where
  "acted w = filter acts (trace w)"

fun is_Invoke :: "event \<Rightarrow> bool" where
  "is_Invoke (Invoke name dn) = True"
| "is_Invoke e = False"

definition invoked :: "world \<Rightarrow> event list" where
  "invoked w = filter is_Invoke (trace w)"

text \<open>The durable part of the world, the trace left out.\<close>

definition durable :: "world \<Rightarrow> vtext \<times> vtext list \<times> MigrationEntry list \<times> bool" where
  "durable w = (botpress_config_version w, srv_metadata w, srv_migrations w, cache_exists w)"

text \<open>What the handler of a file does when the loop calls it, if the loop can call it.\<close>

definition called :: "process \<Rightarrow> MigrationService \<Rightarrow> MigrationFile \<Rightarrow> handler option" where
  "called p srv f =
     (case map_of (loadedMigrations srv) (filename f) of
        None \<Rightarrow> None
      | Some m \<Rightarrow> handler_called (cmd_isDown p) m)"

definition resolves :: "process \<Rightarrow> MigrationService \<Rightarrow> MigrationFile \<Rightarrow> bool" where
  "resolves p srv f = (case called p srv f of Some (Resolves r) \<Rightarrow> True | _ \<Rightarrow> False)"

text \<open>The world at which \<^const>\<open>executeMigrations\<close> starts the series.\<close>

definition series_start :: "process \<Rightarrow> collaborators \<Rightarrow> MigrationFile list \<Rightarrow> world \<Rightarrow> world" where
  "series_start p c plan w = clear_cache p c (log Info (ExecutingBanner (length plan)) w)"

section \<open>Example data\<close>

definition v100 :: semver where "v100 = SemVer 1 0 0 []"
definition v110 :: semver where "v110 = SemVer 1 1 0 []"
definition v120 :: semver where "v120 = SemVer 1 2 0 []"

definition succeeding :: handler where
  "succeeding = Resolves \<lparr>success = True, message = None\<rparr>"

definition failing :: handler where
  "failing = Resolves \<lparr>success = False, message = Some ''table is locked''\<rparr>"

definition raising :: handler where
  "raising = Rejects ''connection lost''"

definition file_a :: MigrationFile where
  "file_a = \<lparr>date = Finite 1, version = Some v110, location = ''migrations/v1_1_0-1-a.js'',
             filename = ''v1_1_0-1-a.js'', title = ''a''\<rparr>"

definition file_b :: MigrationFile where
  "file_b = \<lparr>date = Finite 2, version = Some v120, location = ''migrations/v1_2_0-2-b.js'',
             filename = ''v1_2_0-2-b.js'', title = ''b''\<rparr>"

definition file_c :: MigrationFile where
  "file_c = \<lparr>date = Finite 3, version = Some v120, location = ''migrations/v1_2_0-3-c.js'',
             filename = ''v1_2_0-3-c.js'', title = ''c''\<rparr>"

definition migration :: "MigrationType \<Rightarrow> handler \<Rightarrow> handler option \<Rightarrow> Migration" where
  "migration ty u d =
     \<lparr>info_description = ''change'', info_target = Some Core, info_type = ty, up = u, down = d\<rparr>"

definition service :: "semver \<Rightarrow> semver \<Rightarrow> semver \<Rightarrow> (string \<times> Migration) list \<Rightarrow> MigrationService" where
  "service t cfg db loaded =
     \<lparr>targetVersion = Valid t, configVersion = Valid cfg, dbVersion = Valid db,
      loadedMigrations = loaded\<rparr>"

definition a_process :: process where
  "a_process =
     \<lparr>SKIP_MIGRATIONS = False, MIGRATE_TARGET = None, MIGRATE_CMD = None,
      MIGRATE_DRYRUN = False, AUTO_MIGRATE = True, IS_FAILSAFE = False,
      BOTPRESS_VERSION = Valid v120, TESTMIG_BP_VERSION = None,
      TESTMIG_CONFIG_VERSION = None, TESTMIG_DB_VERSION = None,
      TESTMIG_ALL = False, TESTMIG_NEW = False, TESTMIG_NEW_yn = False,
      TESTMIG_IGNORE_LIST = None, APP_DATA_PATH = Some ''/data'', LOADED_MODULES = []\<rparr>"

text \<open>
  \<^verbatim>\<open>Number\<close> and \<^verbatim>\<open>semver.valid\<close> on the arguments they are given in the examples: the
  timestamps \<^verbatim>\<open>1\<close>, \<^verbatim>\<open>2\<close>, \<^verbatim>\<open>3\<close>, the word \<^verbatim>\<open>fix\<close> and \<^verbatim>\<open>undefined\<close>, and the raw
  versions \<^verbatim>\<open>v1.1.0\<close> and \<^verbatim>\<open>v1.2.0\<close>.
\<close>

definition Number_of_examples :: "string option \<Rightarrow> number" where
  "Number_of_examples t =
     (if t = Some ''1'' then Finite 1 else if t = Some ''2'' then Finite 2
      else if t = Some ''3'' then Finite 3 else NaN)"

definition valid_of_examples :: "string \<Rightarrow> semver option" where
  "valid_of_examples s =
     (if s = ''v1.1.0'' then Some v110 else if s = ''v1.2.0'' then Some v120 else None)"

text \<open>A disk with the given files in the directory of the core, and no failing write.\<close>

definition on_disk :: "(string \<times> Migration) list \<Rightarrow> collaborators" where
  "on_disk units =
     \<lparr>glob_sync = (\<lambda>r. if r = core_root then map fst units else []),
      Number = Number_of_examples,
      semver_valid = valid_of_examples,
      require_default =
        (\<lambda>l. case map_of (map (\<lambda>(path, m). (core_root @ ''/'' @ path, m)) units) l of
               Some m \<Rightarrow> m
             | None \<Rightarrow> migration Config succeeding None),
      removeSync_error = None, srv_migrations_insert_error = None,
      srv_metadata_insert_error = None, mergeBotpressConfig_error = None,
      coreMigrationCompleted_error = None\<rparr>"

definition a_world :: "semver \<Rightarrow> world" where
  "a_world v =
     \<lparr>botpress_config_version = Valid v, srv_metadata = [Valid v], srv_migrations = [],
      cache_exists = True, trace = []\<rparr>"


text \<open>
  One call of \<^const>\<open>filterMigrations\<close> in \<^const>\<open>getMigrationsToExecute\<close> keeps
  a file when both filters do, for the type asked for.
\<close>

definition wanted :: "bool \<Rightarrow> MigrationService \<Rightarrow> MigrationType \<Rightarrow> MigrationFile \<Rightarrow> bool" where
  "wanted dn srv ty f =
     (in_range srv (current_marker srv ty) dn f \<and>
      content_ok srv \<lparr>opt_isDown = dn, opt_type = Some ty, opt_target = None\<rparr> f)"

definition down_service :: MigrationService where
  "down_service = service v100 v120 v110
        [(filename file_a, migration Database succeeding (Some succeeding)),
         (filename file_b, migration Config succeeding (Some succeeding)),
         (filename file_c, migration Database succeeding (Some succeeding))]"

definition idle_service :: MigrationService where
  "idle_service = service v120 v120 v120
        [(filename file_a, migration Database succeeding (Some succeeding)),
         (filename file_b, migration Config succeeding (Some succeeding)),
         (filename file_c, migration Database succeeding (Some succeeding))]"

text \<open>
  The point at which \<^const>\<open>initialize\<close> has its plan: how version detection ended,
  the plan, and the service and the world then.
\<close>

definition prepared ::
  "process \<Rightarrow> collaborators \<Rightarrow> MigrationService \<Rightarrow> world
     \<Rightarrow> unit outcome \<times> MigrationFile list \<times> MigrationService \<times> world" where
  "prepared p c srv w =
     (case getAllMigrations p c srv w of
        (allMigrations, srv1, w1) \<Rightarrow>
          (case detectAndSetupVersions p allMigrations srv1 w1 of
             (r, srv2, w2) \<Rightarrow>
               (r, getMigrationsToExecute (cmd_isDown p) srv2 allMigrations, srv2, w2)))"


definition dry_bad_target_process :: process where
  "dry_bad_target_process =
     a_process\<lparr>MIGRATE_DRYRUN := True, MIGRATE_CMD := Some ''up'',
               MIGRATE_TARGET := Some (Invalid ''not-a-version'')\<rparr>"

definition dry_up_process :: process where
  "dry_up_process = a_process\<lparr>MIGRATE_DRYRUN := True, MIGRATE_CMD := Some ''up''\<rparr>"

definition one_unit :: collaborators where
  "one_unit = on_disk [(''v1_1_0-1-a.js'', migration Database succeeding None)]"

text \<open>
  Notions for the series of \<^const>\<open>executeMigrations\<close>: a unit reports a failure when
  its handler resolves to a result without success; the units executed are those of the
  plan that are not on the ignore list; a run has some failure when an executed unit
  reports one. \<open>running\<close> is the world once the handler of a file has been invoked,
  and \<open>outcome_line\<close> the line logged for its result.
\<close>

definition reports_failure :: "process \<Rightarrow> MigrationService \<Rightarrow> MigrationFile \<Rightarrow> bool" where
  "reports_failure p srv f =
     (case called p srv f of Some (Resolves r) \<Rightarrow> \<not> success r | _ \<Rightarrow> False)"

definition executed :: "process \<Rightarrow> MigrationFile list \<Rightarrow> MigrationFile list" where
  "executed p plan = filter (\<lambda>f. \<not> ignored p (filename f)) plan"

definition invocations :: "process \<Rightarrow> MigrationFile list \<Rightarrow> event list" where
  "invocations p plan = map (\<lambda>f. Invoke (filename f) (cmd_isDown p)) (executed p plan)"

definition some_failure :: "process \<Rightarrow> MigrationService \<Rightarrow> MigrationFile list \<Rightarrow> bool" where
  "some_failure p srv plan = list_ex (reports_failure p srv) (executed p plan)"

definition outcome_line :: "MigrationResult \<Rightarrow> event" where
  "outcome_line r =
     (if success r then Log Info (Text (''- '' @ message_or r ''Success''))
      else Log Err (Text (''- '' @ message_or r ''Failure'')))"

definition running :: "process \<Rightarrow> MigrationFile \<Rightarrow> world \<Rightarrow> world" where
  "running p f w =
     emit (Invoke (filename f) (cmd_isDown p)) (log Info (Text (''Running '' @ filename f)) w)"

text \<open>More services, processes and collaborators for the examples.\<close>

definition failsafe_process :: process where
  "failsafe_process = a_process\<lparr>IS_FAILSAFE := True\<rparr>"

definition three_units :: MigrationService where
  "three_units = service v120 v100 v100
     [(filename file_a, migration Database failing None),
      (filename file_b, migration Database raising None),
      (filename file_c, migration Database succeeding None)]"

definition two_units :: MigrationService where
  "two_units = service v120 v100 v100
     [(filename file_a, migration Database failing None),
      (filename file_b, migration Config succeeding None)]"

definition raising_first :: MigrationService where
  "raising_first = service v120 v100 v100
     [(filename file_b, migration Database raising None),
      (filename file_c, migration Database succeeding None)]"

definition failing_unit :: collaborators where
  "failing_unit = on_disk [(''v1_1_0-1-a.js'', migration Database failing None)]"

definition read_only_metadata :: collaborators where
  "read_only_metadata = (on_disk [])\<lparr>srv_metadata_insert_error := Some ''database is read-only''\<rparr>"

definition no_audit_table :: collaborators where
  "no_audit_table = (on_disk [])\<lparr>srv_migrations_insert_error := Some ''no such table''\<rparr>"

text \<open>
  The order in which the sort leaves the dates: ascending, with \<^verbatim>\<open>NaN\<close> after everything.
\<close>

definition date_le :: "number \<Rightarrow> number \<Rightarrow> bool" where
  "date_le a b = (js_le a b \<or> b = NaN)"

text \<open>The descriptor of a file whose name has a word where the timestamp should be.\<close>

definition file_x :: MigrationFile where
  "file_x = \<lparr>date = NaN, version = Some v110, location = ''migrations/v1_1_0-fix-thing.js'',
             filename = ''v1_1_0-fix-thing.js'', title = ''thing''\<rparr>"



section \<open>Facts about versions, sorting and filtering\<close>

lemma satisfies_same: "\<not> satisfies v c c"
  by (auto simp: satisfies_def gt_def lte_def split: option.splits)

lemma filterMigrations_same_target:
  "cur = targetVersion srv \<Longrightarrow> filterMigrations srv files cur opts = []"
  by (simp add: filterMigrations_def in_range_def satisfies_same Let_def)

lemma compareAscending_neg: "compareAscending a b < 0 \<longleftrightarrow> \<not> date_le b a"
  by (cases a; cases b) (auto simp: compareAscending_def date_le_def js_le_def js_eq_def
      js_gt_def)

lemma date_le_total: "date_le a b \<or> date_le b a"
  by (cases a; cases b) (auto simp: date_le_def js_le_def js_eq_def)

lemma date_le_trans: "date_le a b \<Longrightarrow> date_le b c \<Longrightarrow> date_le a c"
  by (cases a; cases b; cases c) (auto simp: date_le_def js_le_def js_eq_def)

lemma set_insert_by_date [simp]: "set (insert_by_date x ys) = insert x (set ys)"
  by (induction ys) auto

lemma mset_insert_by_date [simp]: "mset (insert_by_date x ys) = add_mset x (mset ys)"
  by (induction ys) auto

lemma sorted_insert_by_date:
  "sorted_wrt (\<lambda>u v. date_le (date u) (date v)) ys \<Longrightarrow>
   sorted_wrt (\<lambda>u v. date_le (date u) (date v)) (insert_by_date x ys)"
proof (induction ys)
  case Nil
  then show ?case by simp
next
  case (Cons y ys)
  show ?case
  proof (cases "compareAscending (date x) (date y) < 0")
    case True
    then have xy: "date_le (date x) (date y)"
      using date_le_total [of "date x" "date y"] by (simp add: compareAscending_neg)
    have "\<forall>z \<in> set ys. date_le (date x) (date z)"
      using Cons.prems xy by (auto intro: date_le_trans)
    with True xy Cons.prems show ?thesis by simp
  next
    case False
    then have yx: "date_le (date y) (date x)" by (simp add: compareAscending_neg)
    from Cons.prems have "sorted_wrt (\<lambda>u v. date_le (date u) (date v)) ys" by simp
    from Cons.IH [OF this] Cons.prems yx False show ?thesis by auto
  qed
qed

lemma foldl_insert_sorted:
  "sorted_wrt (\<lambda>u v. date_le (date u) (date v)) acc \<Longrightarrow>
   sorted_wrt (\<lambda>u v. date_le (date u) (date v))
     (foldl (\<lambda>sorted x. insert_by_date x sorted) acc xs)"
  by (induction xs arbitrary: acc) (simp_all add: sorted_insert_by_date)

lemma sorted_sortBy_date: "sorted_wrt (\<lambda>u v. date_le (date u) (date v)) (sortBy_date xs)"
  by (simp add: sortBy_date_def foldl_insert_sorted)

lemma foldl_insert_set:
  "set (foldl (\<lambda>sorted x. insert_by_date x sorted) acc xs) = set acc \<union> set xs"
  by (induction xs arbitrary: acc) auto

lemma set_sortBy_date [simp]: "set (sortBy_date xs) = set xs"
  by (simp add: sortBy_date_def foldl_insert_set)

lemma foldl_insert_mset:
  "mset (foldl (\<lambda>sorted x. insert_by_date x sorted) acc xs) = mset acc + mset xs"
  by (induction xs arbitrary: acc) auto

lemma mset_sortBy_date [simp]: "mset (sortBy_date xs) = mset xs"
  by (simp add: sortBy_date_def foldl_insert_mset)

lemma sortBy_date_Nil [simp]: "sortBy_date [] = []"
  by (simp add: sortBy_date_def)

lemma element_numeral [simp]: "element (x # xs) (numeral k) = element xs (pred_numeral k)"
  by (simp add: numeral_eq_Suc)

lemma set_filterMigrations_loaded:
  "loadedMigrations srv \<noteq> [] \<Longrightarrow>
   set (filterMigrations srv files cur opts) =
     {f \<in> set files. in_range srv cur (opt_isDown opts) f \<and> content_ok srv opts f}"
  by (auto simp: filterMigrations_def Let_def)

lemma filter_mset_disj3:
  assumes "\<And>x. x \<in># M \<Longrightarrow> \<not> (P x \<and> Q x) \<and> \<not> (P x \<and> R x) \<and> \<not> (Q x \<and> R x)"
  shows "filter_mset P M + filter_mset Q M + filter_mset R M
           = filter_mset (\<lambda>x. P x \<or> Q x \<or> R x) M"
  using assms by (induction M) auto

lemma plan_subset: "set (getMigrationsToExecute dn srv files) \<subseteq> set files"
  by (auto simp: getMigrationsToExecute_def filterMigrations_def Let_def split: if_splits)

section \<open>The order of the plan\<close>

text \<open>
  Claim C5, as the code has it. Whatever the direction, the plan that
  \<^const>\<open>getMigrationsToExecute\<close> returns is in ascending order of \<^const>\<open>date\<close>, with the
  units whose date is \<^verbatim>\<open>NaN\<close> last: of two consecutive units, the first has the smaller or
  the same date, or the second has the date \<^verbatim>\<open>NaN\<close>. When no unit of the catalog has the
  date \<^verbatim>\<open>NaN\<close>, the first of two consecutive units always has the smaller or the same date.
\<close>

theorem plan_ordered_by_date:
  "(\<forall>i. Suc i < length (getMigrationsToExecute dn srv allMigrations) \<longrightarrow>
      js_le (date (getMigrationsToExecute dn srv allMigrations ! i))
            (date (getMigrationsToExecute dn srv allMigrations ! Suc i))
      \<or> date (getMigrationsToExecute dn srv allMigrations ! Suc i) = NaN)
   \<and> ((\<forall>f \<in> set allMigrations. date f \<noteq> NaN) \<longrightarrow>
       (\<forall>i. Suc i < length (getMigrationsToExecute dn srv allMigrations) \<longrightarrow>
          js_le (date (getMigrationsToExecute dn srv allMigrations ! i))
                (date (getMigrationsToExecute dn srv allMigrations ! Suc i))))"
proof -
  let ?plan = "getMigrationsToExecute dn srv allMigrations"
  have s: "sorted_wrt (\<lambda>u v. date_le (date u) (date v)) ?plan"
    by (simp add: getMigrationsToExecute_def sorted_sortBy_date)
  have step: "date_le (date (?plan ! i)) (date (?plan ! Suc i))" if "Suc i < length ?plan" for i
    using s that by (simp add: sorted_wrt_iff_nth_less)
  have first: "\<forall>i. Suc i < length ?plan \<longrightarrow>
      js_le (date (?plan ! i)) (date (?plan ! Suc i)) \<or> date (?plan ! Suc i) = NaN"
    using step by (simp add: date_le_def)
  have second: "\<forall>i. Suc i < length ?plan \<longrightarrow> js_le (date (?plan ! i)) (date (?plan ! Suc i))"
    if none: "\<forall>f \<in> set allMigrations. date f \<noteq> NaN"
  proof (intro allI impI)
    fix i assume i: "Suc i < length ?plan"
    then have "?plan ! Suc i \<in> set ?plan" by simp
    then have "?plan ! Suc i \<in> set allMigrations" using plan_subset by blast
    with none have "date (?plan ! Suc i) \<noteq> NaN" by simp
    with step [OF i] show "js_le (date (?plan ! i)) (date (?plan ! Suc i))"
      by (simp add: date_le_def)
  qed
  from first second show ?thesis by blast
qed

lemma example_upgrade_plan:
  "getMigrationsToExecute False
      (service v120 v100 v100
         [(filename file_a, migration Config succeeding None),
          (filename file_b, migration Database succeeding None)])
      [file_b, file_a] = [file_a, file_b]"
  by (simp add: getMigrationsToExecute_def filterMigrations_def in_range_def content_ok_def
      sortBy_date_def compareAscending_def js_eq_def js_gt_def v100_def v110_def v120_def
      succeeding_def file_a_def file_b_def migration_def service_def satisfies_def gt_def
      lte_def compare_def compareMain_def comparePre_def compareNumbers_def same_tuple_def)

text \<open>
  An upgrade from 1.0.0 to 1.2.0 with the catalog in the order \<open>b\<close>, \<open>a\<close>, both with a
  numeric date: the plan is \<open>a\<close>, \<open>b\<close>, by date.
\<close>

theorem plan_ordered_by_date_witness:
  "list_all (\<lambda>f. date f \<noteq> NaN) [file_b, file_a]
   \<and> getMigrationsToExecute False
      (service v120 v100 v100
         [(filename file_a, migration Config succeeding None),
          (filename file_b, migration Database succeeding None)])
      [file_b, file_a] = [file_a, file_b]
   \<and> js_le (date file_a) (date file_b)"
proof -
  have h: "\<forall>f \<in> set [file_b, file_a]. date f \<noteq> NaN"
    by (simp add: file_a_def file_b_def)
  have l: "list_all (\<lambda>f. date f \<noteq> NaN) [file_b, file_a]"
    using h by simp
  have "js_le (date file_a) (date file_b)"
    using plan_ordered_by_date [of False "service v120 v100 v100
         [(filename file_a, migration Config succeeding None),
          (filename file_b, migration Database succeeding None)]" "[file_b, file_a]"] h
    by (auto simp: example_upgrade_plan)
  with l show ?thesis by (simp add: example_upgrade_plan)
qed

text \<open>
  Claim C5 as stated fails: the file \<^verbatim>\<open>v1_1_0-fix-thing.js\<close> has the version 1.1.0 and the
  date \<^verbatim>\<open>NaN\<close>; an upgrade from 1.0.0 to 1.2.0 plans it after the unit of date 2, and
  \<^verbatim>\<open>2 <= NaN\<close> is false.
\<close>

theorem nan_date_is_planned_last:
  "descriptor (on_disk []) core_root ''v1_1_0-fix-thing.js'' = file_x
   \<and> getMigrationsToExecute False
        (service v120 v100 v100
           [(filename file_x, migration Database succeeding None),
            (filename file_b, migration Config succeeding None)])
        [file_x, file_b] = [file_b, file_x]
   \<and> \<not> js_le (date file_b) (date file_x)"
  by (simp add: descriptor_def basename_def replace_underscores_def strip_js_def on_disk_def
      Number_of_examples_def valid_of_examples_def core_root_def getMigrationsToExecute_def
      filterMigrations_def in_range_def content_ok_def sortBy_date_def compareAscending_def
      js_eq_def js_gt_def js_le_def v100_def v110_def v120_def succeeding_def file_x_def
      file_b_def migration_def service_def satisfies_def gt_def lte_def compare_def
      compareMain_def comparePre_def compareNumbers_def same_tuple_def Let_def)

section \<open>Units without a down handler\<close>

text \<open>
  Claim C6. In a downgrade, a unit whose loaded migration has no \<^verbatim>\<open>down\<close> function is
  not in the plan. The plan is a plain list: leaving the unit out raises no error.
\<close>

theorem downgrade_plan_excludes_missing_down:
  assumes "map_of (loadedMigrations srv) (filename file) = Some content"
    and "down content = None"
  shows "file \<notin> set (getMigrationsToExecute True srv allMigrations)"
proof -
  from assms(1) have ne: "loadedMigrations srv \<noteq> []" by auto
  have "\<not> content_ok srv \<lparr>opt_isDown = True, opt_type = ty, opt_target = None\<rparr> file" for ty
    using assms by (simp add: content_ok_def)
  then show ?thesis
    by (simp add: getMigrationsToExecute_def set_filterMigrations_loaded [OF ne])
qed

text \<open>
  A downgrade from 1.2.0 to 1.0.0: \<open>a\<close> has no \<^verbatim>\<open>down\<close> and is left out, \<open>b\<close> has one
  and is planned.
\<close>

theorem downgrade_plan_excludes_missing_down_witness:
  "map_of (loadedMigrations (service v100 v120 v120
        [(filename file_a, migration Database succeeding None),
         (filename file_b, migration Database succeeding (Some succeeding))])) (filename file_a)
     = Some (migration Database succeeding None)
   \<and> down (migration Database succeeding None) = None
   \<and> file_a \<notin> set (getMigrationsToExecute True (service v100 v120 v120
        [(filename file_a, migration Database succeeding None),
         (filename file_b, migration Database succeeding (Some succeeding))]) [file_a, file_b])
   \<and> getMigrationsToExecute True (service v100 v120 v120
        [(filename file_a, migration Database succeeding None),
         (filename file_b, migration Database succeeding (Some succeeding))]) [file_a, file_b]
     = [file_b]"
proof -
  let ?srv = "service v100 v120 v120
        [(filename file_a, migration Database succeeding None),
         (filename file_b, migration Database succeeding (Some succeeding))]"
  have h1: "map_of (loadedMigrations ?srv) (filename file_a)
              = Some (migration Database succeeding None)"
    by (simp add: v100_def v110_def v120_def succeeding_def file_a_def file_b_def migration_def
      service_def)
  have h2: "down (migration Database succeeding None) = None"
    by (simp add: v100_def v110_def v120_def succeeding_def file_a_def file_b_def migration_def
      service_def)
  have p: "getMigrationsToExecute True ?srv [file_a, file_b] = [file_b]"
    by (simp add: getMigrationsToExecute_def filterMigrations_def in_range_def content_ok_def
      sortBy_date_def compareAscending_def js_eq_def js_gt_def v100_def v110_def v120_def
      succeeding_def file_a_def file_b_def migration_def service_def satisfies_def gt_def
      lte_def compare_def compareMain_def comparePre_def compareNumbers_def same_tuple_def)
  show ?thesis
    using downgrade_plan_excludes_missing_down [OF h1 h2, of "[file_a, file_b]"] h1 h2 p
    by simp
qed

section \<open>Filtering before anything is loaded\<close>

text \<open>
  Claim C10. When \<^const>\<open>loadedMigrations\<close> is empty, \<^const>\<open>filterMigrations\<close> applies
  the version range and nothing else: whatever the direction, type and target asked for,
  it returns the files whose version satisfies the range. In the example a downgrade asks
  for units of type config and target bot, and gets both files, of which nothing is known.
\<close>

theorem filterMigrations_nothing_loaded:
  assumes "loadedMigrations srv = []"
  shows "filterMigrations srv files currentVersion opts =
           filter (\<lambda>file. if opt_isDown opts
                           then satisfies (version file) (targetVersion srv) currentVersion
                           else satisfies (version file) currentVersion (targetVersion srv)) files"
proof -
  have "in_range srv currentVersion (opt_isDown opts) =
          (\<lambda>file. if opt_isDown opts
                   then satisfies (version file) (targetVersion srv) currentVersion
                   else satisfies (version file) currentVersion (targetVersion srv))"
    by (rule ext) (simp add: in_range_def)
  with assms show ?thesis by (simp add: filterMigrations_def Let_def)
qed

text \<open>
  With nothing loaded, a downgrade from 1.2.0 to 1.0.0 that asks for type config and
  target bot is given both files.
\<close>

theorem filterMigrations_nothing_loaded_witness:
  "loadedMigrations (service v100 v120 v120 []) = [] \<and>
   filterMigrations (service v100 v120 v120 []) [file_a, file_b] (Valid v120)
      \<lparr>opt_isDown = True, opt_type = Some Config, opt_target = Some Bot\<rparr> = [file_a, file_b]"
proof -
  have h: "loadedMigrations (service v100 v120 v120 []) = []" by (simp add: v100_def v110_def
      v120_def file_a_def file_b_def service_def)
  show ?thesis
    using filterMigrations_nothing_loaded [OF h, of "[file_a, file_b]" "Valid v120"
        "\<lparr>opt_isDown = True, opt_type = Some Config, opt_target = Some Bot\<rparr>"] h
    by (simp add: v100_def v110_def v120_def file_a_def file_b_def service_def satisfies_def
      gt_def lte_def compare_def compareMain_def comparePre_def compareNumbers_def
      same_tuple_def)
qed

section \<open>What the plan contains\<close>

lemma in_range_release:
  assumes "\<And>v. version f = Some v \<Longrightarrow> prerelease v = []"
  shows "in_range srv (current_marker srv ty) dn f = version_due dn srv ty f"
  using assms
  by (auto simp: in_range_def version_due_def satisfies_def in_half_open_def split:
      option.splits)

lemma mset_filterMigrations_loaded:
  "loadedMigrations srv \<noteq> [] \<Longrightarrow>
   mset (filterMigrations srv files cur opts) =
     filter_mset (\<lambda>f. in_range srv cur (opt_isDown opts) f \<and> content_ok srv opts f) (mset files)"
  by (simp add: filterMigrations_def Let_def conj_commute)

lemma content_ok_type:
  "content_ok srv \<lparr>opt_isDown = dn, opt_type = Some ty, opt_target = None\<rparr> f =
     (case map_of (loadedMigrations srv) (filename f) of None \<Rightarrow> False
      | Some m \<Rightarrow> (\<not> dn \<or> down m \<noteq> None) \<and> info_type m = ty)"
  by (auto simp: content_ok_def split: option.splits)

lemma wanted_disjoint: "wanted dn srv ty f \<Longrightarrow> wanted dn srv ty' f \<Longrightarrow> ty = ty'"
  by (auto simp: wanted_def content_ok_type split: option.splits)

lemma wanted_due:
  assumes r: "\<And>v. version f = Some v \<Longrightarrow> prerelease v = []"
  shows "(wanted dn srv Database f \<or> wanted dn srv Config f \<or> wanted dn srv Content f)
         = due dn srv f"
proof (cases "map_of (loadedMigrations srv) (filename f)")
  case None
  then show ?thesis by (simp add: wanted_def content_ok_type due_def)
next
  case (Some m)
  have w: "wanted dn srv ty f = ((\<not> dn \<or> down m \<noteq> None) \<and> info_type m = ty \<and>
             version_due dn srv ty f)" for ty
    using Some by (auto simp: wanted_def content_ok_type in_range_release [OF r])
  show ?thesis
    unfolding w by (cases "info_type m") (simp_all add: due_def Some)
qed

lemma plan_mset_wanted:
  assumes ne: "loadedMigrations srv \<noteq> []"
  shows "mset (getMigrationsToExecute dn srv files) =
          filter_mset (wanted dn srv Database) (mset files)
          + filter_mset (wanted dn srv Config) (mset files)
          + filter_mset (wanted dn srv Content) (mset files)"
  unfolding getMigrationsToExecute_def wanted_def
  by (simp add: mset_filterMigrations_loaded [OF ne])

lemma plan_mset:
  assumes ne: "loadedMigrations srv \<noteq> []"
    and rel: "\<forall>f \<in> set files. \<forall>v. version f = Some v \<longrightarrow> prerelease v = []"
  shows "mset (getMigrationsToExecute dn srv files) = filter_mset (due dn srv) (mset files)"
proof -
  have d: "\<And>x. x \<in># mset files \<Longrightarrow>
      \<not> (wanted dn srv Database x \<and> wanted dn srv Config x) \<and>
      \<not> (wanted dn srv Database x \<and> wanted dn srv Content x) \<and>
      \<not> (wanted dn srv Config x \<and> wanted dn srv Content x)"
    using wanted_disjoint by blast
  have "mset (getMigrationsToExecute dn srv files) =
     filter_mset (\<lambda>f. wanted dn srv Database f \<or> wanted dn srv Config f \<or> wanted dn srv Content f) (mset files)"
    unfolding plan_mset_wanted [OF ne]
    using filter_mset_disj3 [where M = "mset files" and P = "wanted dn srv Database"
        and Q = "wanted dn srv Config" and R = "wanted dn srv Content", OF d]
    by simp
  also have "\<dots> = filter_mset (due dn srv) (mset files)"
  proof (rule filter_mset_cong [OF refl])
    fix f assume "f \<in># mset files"
    then have r: "\<And>v. version f = Some v \<Longrightarrow> prerelease v = []" using rel by auto
    show "(wanted dn srv Database f \<or> wanted dn srv Config f \<or> wanted dn srv Content f) = due dn srv f"
      by (rule wanted_due [OF r])
  qed
  finally show ?thesis .
qed

text \<open>
  Claim C1, as the code has it. When every catalog unit has a loaded migration, as after
  \<^const>\<open>getAllMigrations\<close>, and the versions of the units are release versions, as
  \<^verbatim>\<open>_getMigrations\<close> reads them from file names, the plan holds exactly the units that
  are due, each as often as the catalog has it: the version lies in \<open>(current, target]\<close>
  for an upgrade and in \<open>(target, current]\<close> for a downgrade, current being the database
  marker for a unit of type database and the configuration marker for the two other
  types, and, for a downgrade, the unit has a \<^verbatim>\<open>down\<close> handler. When both markers equal
  the target the plan is empty.
\<close>

theorem plan_is_the_due_units:
  assumes loaded: "\<forall>f \<in> set files. map_of (loadedMigrations srv) (filename f) \<noteq> None"
    and rel: "\<forall>f \<in> set files. \<forall>v. version f = Some v \<longrightarrow> prerelease v = []"
  shows "mset (getMigrationsToExecute dn srv files) = filter_mset (due dn srv) (mset files)
     \<and> (dbVersion srv = targetVersion srv \<and> configVersion srv = targetVersion srv
          \<longrightarrow> getMigrationsToExecute dn srv files = [])"
proof (intro conjI impI)
  show "mset (getMigrationsToExecute dn srv files) = filter_mset (due dn srv) (mset files)"
  proof (cases "loadedMigrations srv = []")
    case True
    with loaded have "files = []" by (cases files) auto
    then show ?thesis by (simp add: getMigrationsToExecute_def filterMigrations_def)
  next
    case False
    then show ?thesis using rel by (rule plan_mset)
  qed
next
  assume "dbVersion srv = targetVersion srv \<and> configVersion srv = targetVersion srv"
  then show "getMigrationsToExecute dn srv files = []"
    by (simp add: getMigrationsToExecute_def filterMigrations_same_target)
qed

lemma example_due: "due True down_service file_a" "due True down_service file_b" "\<not> due True down_service file_c"
  by (simp_all add: due_def version_due_def down_service_def v100_def v110_def v120_def
      succeeding_def file_a_def file_b_def file_c_def migration_def service_def satisfies_def
      gt_def lte_def compare_def compareMain_def comparePre_def compareNumbers_def
      same_tuple_def in_half_open_def)

text \<open>
  A downgrade to 1.0.0 with the configuration at 1.2.0 and the database at 1.1.0: \<open>a\<close>
  (database, 1.1.0) and \<open>b\<close> (config, 1.2.0) are due, \<open>c\<close> (database, 1.2.0) is above the
  database marker. With everything at 1.2.0 an upgrade plans nothing.
\<close>

theorem plan_is_the_due_units_witness:
  "list_all (\<lambda>f. map_of (loadedMigrations down_service) (filename f) \<noteq> None)
      [file_c, file_b, file_a]
   \<and> list_all (\<lambda>f. case version f of None \<Rightarrow> True | Some v \<Rightarrow> prerelease v = [])
      [file_c, file_b, file_a]
   \<and> mset (getMigrationsToExecute True down_service [file_c, file_b, file_a]) = {#file_a, file_b#}
   \<and> dbVersion idle_service = targetVersion idle_service
   \<and> configVersion idle_service = targetVersion idle_service
   \<and> getMigrationsToExecute False idle_service [file_c, file_b, file_a] = []"
proof -
  have h1: "\<forall>f \<in> set [file_c, file_b, file_a]. map_of (loadedMigrations down_service) (filename f) \<noteq> None"
    by (simp add: down_service_def v100_def v110_def v120_def succeeding_def file_a_def
      file_b_def file_c_def migration_def service_def)
  have h2: "\<forall>f \<in> set [file_c, file_b, file_a]. \<forall>v. version f = Some v \<longrightarrow> prerelease v = []"
    by (simp add: v100_def v110_def v120_def succeeding_def file_a_def file_b_def file_c_def
      migration_def service_def)
  have h3: "\<forall>f \<in> set [file_c, file_b, file_a]. map_of (loadedMigrations idle_service) (filename f) \<noteq> None"
    by (simp add: idle_service_def v100_def v110_def v120_def succeeding_def file_a_def
      file_b_def file_c_def migration_def service_def)
  have e: "dbVersion idle_service = targetVersion idle_service"
      "configVersion idle_service = targetVersion idle_service"
    by (simp_all add: idle_service_def v100_def v110_def v120_def succeeding_def file_a_def
      file_b_def file_c_def migration_def service_def)
  have l1: "list_all (\<lambda>f. map_of (loadedMigrations down_service) (filename f) \<noteq> None)
      [file_c, file_b, file_a]"
    using h1 by simp
  have l2: "list_all (\<lambda>f. case version f of None \<Rightarrow> True | Some v \<Rightarrow> prerelease v = [])
      [file_c, file_b, file_a]"
    by (simp add: v100_def v110_def v120_def succeeding_def file_a_def file_b_def file_c_def
      migration_def service_def)
  have "mset (getMigrationsToExecute True down_service [file_c, file_b, file_a]) = {#file_a, file_b#}
     \<and> getMigrationsToExecute False idle_service [file_c, file_b, file_a] = []"
    using plan_is_the_due_units [OF h1 h2, of True] plan_is_the_due_units [OF h3 h2, of False] e
    by (simp add: example_due)
  with l1 l2 e show ?thesis by simp
qed

text \<open>
  Claim C1 as stated fails: in a downgrade from 1.2.0 to 1.0.0 the unit of version 1.1.0
  lies in \<open>(target, current]\<close>, and the plan leaves it out, since it has no \<^verbatim>\<open>down\<close>.
\<close>

theorem plan_misses_unit_without_down:
  "file_a \<in> set [file_a]
   \<and> map_of (loadedMigrations (service v100 v120 v120
        [(filename file_a, migration Database succeeding None)])) (filename file_a)
       = Some (migration Database succeeding None)
   \<and> version file_a = Some v110
   \<and> in_half_open v110 v100 v120
   \<and> file_a \<notin> set (getMigrationsToExecute True (service v100 v120 v120
        [(filename file_a, migration Database succeeding None)]) [file_a])"
  by (simp add: getMigrationsToExecute_def filterMigrations_def in_range_def content_ok_def
      sortBy_date_def compareAscending_def js_eq_def js_gt_def v100_def v110_def v120_def
      succeeding_def file_a_def migration_def service_def satisfies_def gt_def lte_def
      compare_def compareMain_def comparePre_def compareNumbers_def same_tuple_def
      in_half_open_def)

section \<open>What discovery and version detection leave unchanged\<close>

lemma durable_emit [simp]: "durable (emit e w) = durable w"
  by (simp add: durable_def emit_def)

lemma durable_log [simp]: "durable (log l m w) = durable w"
  by (simp add: log_def)

lemma durable_trace [simp]: "durable (w\<lparr>trace := t\<rparr>) = durable w"
  by (simp add: durable_def)

lemma trace_emit [simp]: "trace (emit e w) = trace w @ [e]"
  by (simp add: emit_def)

lemma trace_log [simp]: "trace (log l m w) = trace w @ [Log l m]"
  by (simp add: log_def)

lemma acted_emit [simp]: "acted (emit e w) = acted w @ (if acts e then [e] else [])"
  by (simp add: acted_def)

lemma acted_log [simp]: "acted (log l m w) = acted w"
  by (simp add: log_def)

lemma invoked_emit [simp]: "invoked (emit e w) = invoked w @ (if is_Invoke e then [e] else [])"
  by (simp add: invoked_def)

lemma invoked_log [simp]: "invoked (log l m w) = invoked w"
  by (simp add: log_def)

lemma a_world_parts:
  "durable (a_world v) = (Valid v, [Valid v], [], True)" "acted (a_world v) = []"
  "invoked (a_world v) = []"
  by (simp_all add: durable_def acted_def invoked_def a_world_def)

lemma getMigrations_each_frame:
  "getMigrations_each c rs w = (found, w') \<Longrightarrow> durable w' = durable w \<and> acted w' = acted w"
proof (induction rs arbitrary: w found w')
  case Nil
  then show ?case by simp
next
  case (Cons r rs)
  obtain others w2 where o: "getMigrations_each c rs (emit (Glob r) w) = (others, w2)"
    by (cases "getMigrations_each c rs (emit (Glob r) w)")
  from Cons.prems o have "w' = w2" by (simp add: getMigrations_def descriptor_def basename_def
      replace_underscores_def strip_js_def Number_of_examples_def valid_of_examples_def
      Let_def)
  with Cons.IH [OF o] show ?case by simp
qed

lemma load_each_frame:
  "load_each c files srv w = (srv', w') \<Longrightarrow>
     durable w' = durable w \<and> acted w' = acted w \<and>
     targetVersion srv' = targetVersion srv \<and> configVersion srv' = configVersion srv \<and>
     dbVersion srv' = dbVersion srv"
proof (induction files arbitrary: srv w)
  case Nil
  then show ?case by simp
next
  case (Cons f fs)
  show ?case
  proof (cases "map_of (loadedMigrations srv) (filename f) = None")
    case True
    with Cons.prems have "load_each c fs
             (srv\<lparr>loadedMigrations :=
                    loadedMigrations srv @ [(filename f, require_default c (location f))]\<rparr>)
             (emit (Require (location f)) w) = (srv', w')" by simp
    from Cons.IH [OF this] show ?thesis by simp
  next
    case False
    with Cons.prems have "load_each c fs srv w = (srv', w')" by simp
    from Cons.IH [OF this] show ?thesis .
  qed
qed

lemma load_each_keeps:
  "load_each c files srv w = (srv', w') \<Longrightarrow> map_of (loadedMigrations srv) k \<noteq> None
     \<Longrightarrow> map_of (loadedMigrations srv') k \<noteq> None"
proof (induction files arbitrary: srv w)
  case Nil
  then show ?case by simp
next
  case (Cons f fs)
  show ?case
  proof (cases "map_of (loadedMigrations srv) (filename f) = None")
    case True
    with Cons.prems(1) have l: "load_each c fs
             (srv\<lparr>loadedMigrations :=
                    loadedMigrations srv @ [(filename f, require_default c (location f))]\<rparr>)
             (emit (Require (location f)) w) = (srv', w')" by simp
    show ?thesis
      by (rule Cons.IH [OF l]) (use Cons.prems(2) in \<open>auto simp: map_add_def split:
      option.splits\<close>)
  next
    case False
    with Cons.prems(1) have "load_each c fs srv w = (srv', w')" by simp
    from Cons.IH [OF this Cons.prems(2)] show ?thesis .
  qed
qed

lemma load_each_loads:
  "load_each c files srv w = (srv', w') \<Longrightarrow> f \<in> set files
     \<Longrightarrow> map_of (loadedMigrations srv') (filename f) \<noteq> None"
proof (induction files arbitrary: srv w)
  case Nil
  then show ?case by simp
next
  case (Cons g gs)
  show ?case
  proof (cases "map_of (loadedMigrations srv) (filename g) = None")
    case True
    let ?srv1 = "srv\<lparr>loadedMigrations :=
                    loadedMigrations srv @ [(filename g, require_default c (location g))]\<rparr>"
    from True Cons.prems(1) have l: "load_each c gs ?srv1 (emit (Require (location g)) w) = (srv', w')"
      by simp
    show ?thesis
    proof (cases "f = g")
      case True
      have "map_of (loadedMigrations ?srv1) (filename g) \<noteq> None"
        by (auto simp: map_add_def split: option.splits)
      from load_each_keeps [OF l this] True show ?thesis by simp
    next
      case False
      with Cons.prems(2) have "f \<in> set gs" by simp
      from Cons.IH [OF l this] show ?thesis .
    qed
  next
    case False
    with Cons.prems(1) have l: "load_each c gs srv w = (srv', w')" by simp
    show ?thesis
    proof (cases "f = g")
      case True
      from load_each_keeps [OF l False] True show ?thesis by simp
    next
      case False
      with Cons.prems(2) have "f \<in> set gs" by simp
      from Cons.IH [OF l this] show ?thesis .
    qed
  qed
qed

lemma getAllMigrations_frame:
  assumes "getAllMigrations p c srv w = (allMigrations, srv1, w1)"
  shows "durable w1 = durable w" "acted w1 = acted w"
    "targetVersion srv1 = targetVersion srv" "configVersion srv1 = configVersion srv"
    "dbVersion srv1 = dbVersion srv"
    "\<forall>f \<in> set allMigrations. map_of (loadedMigrations srv1) (filename f) \<noteq> None"
proof -
  obtain ms w0 where g: "getMigrations_each c (core_root # map module_root (LOADED_MODULES p)) w = (ms, w0)"
    by (cases "getMigrations_each c (core_root # map module_root (LOADED_MODULES p)) w")
  obtain s2 w2 where l: "load_each c ms srv w0 = (s2, w2)"
    by (cases "load_each c ms srv w0")
  from assms g l have e: "allMigrations = ms" "srv1 = s2" "w1 = w2"
    by (simp_all add: getAllMigrations_def)
  from getMigrations_each_frame [OF g] load_each_frame [OF l] e
  show "durable w1 = durable w" "acted w1 = acted w"
    "targetVersion srv1 = targetVersion srv" "configVersion srv1 = configVersion srv"
    "dbVersion srv1 = dbVersion srv" by simp_all
  from load_each_loads [OF l] e
  show "\<forall>f \<in> set allMigrations. map_of (loadedMigrations srv1) (filename f) \<noteq> None" by simp
qed

lemma detect_frame:
  assumes "detectAndSetupVersions p ms srv w = (r, srv', w')"
  shows "durable w' = durable w" "acted w' = acted w" "loadedMigrations srv' = loadedMigrations srv"
    "r \<noteq> Exits \<Longrightarrow> w' = w"
  using assms
  by (auto simp: detectAndSetupVersions_def Let_def split: if_splits sum.splits)


lemma infos_Some:
  "\<forall>f \<in> set plan. map_of loaded (filename f) \<noteq> None \<Longrightarrow> \<exists>ms. infos loaded plan = Some ms"
  by (induction plan) auto

lemma prepared_frame:
  assumes "prepared p c srv w = (r, plan, srv2, w2)"
  shows "durable w2 = durable w" "acted w2 = acted w"
    "\<forall>f \<in> set plan. map_of (loadedMigrations srv2) (filename f) \<noteq> None"
proof -
  obtain ms srv1 w1 where g: "getAllMigrations p c srv w = (ms, srv1, w1)"
    by (cases "getAllMigrations p c srv w")
  obtain r' s' w' where d: "detectAndSetupVersions p ms srv1 w1 = (r', s', w')"
    by (cases "detectAndSetupVersions p ms srv1 w1")
  from assms g d have e: "r = r'" "srv2 = s'" "w2 = w'"
      "plan = getMigrationsToExecute (cmd_isDown p) s' ms"
    by (auto simp: prepared_def)
  from getAllMigrations_frame(1,2) [OF g] detect_frame(1,2) [OF d] e
  show "durable w2 = durable w" "acted w2 = acted w" by simp_all
  from getAllMigrations_frame(6) [OF g] detect_frame(3) [OF d] e plan_subset [of "cmd_isDown p" s' ms]
  show "\<forall>f \<in> set plan. map_of (loadedMigrations srv2) (filename f) \<noteq> None" by auto
qed

lemma initialize_skipped: "SKIP_MIGRATIONS p \<Longrightarrow> initialize p c srv w = (Returns (), srv, w)"
  by (simp add: initialize_def)

lemma initialize_stopped:
  assumes "\<not> SKIP_MIGRATIONS p" and "prepared p c srv w = (r, plan, srv2, w2)"
    and "r \<noteq> Returns ()"
  shows "initialize p c srv w = (r, srv2, w2)"
  using assms
  by (auto simp: initialize_def prepared_def split: prod.splits outcome.splits)

lemma initialize_nothing_to_do:
  assumes "\<not> SKIP_MIGRATIONS p" and "prepared p c srv w = (Returns (), plan, srv2, w2)"
    and "plan = []" and "MIGRATE_CMD p = None"
  shows "initialize p c srv w = (Returns (), srv2, w2)"
  using assms
  by (auto simp: initialize_def prepared_def split: prod.splits outcome.splits)

lemma initialize_dry_run:
  assumes "\<not> SKIP_MIGRATIONS p" and "prepared p c srv w = (Returns (), plan, srv2, w2)"
    and "plan \<noteq> [] \<or> MIGRATE_CMD p \<noteq> None" and "MIGRATE_DRYRUN p"
    and "infos (loadedMigrations srv2) plan = Some migrations"
  shows "initialize p c srv w =
           (Exits, srv2, w2\<lparr>trace := trace w2 @ status_lines p srv2 migrations\<rparr>)"
  using assms
  by (auto simp: initialize_def prepared_def displayMigrationStatus_def split: prod.splits
      outcome.splits)

section \<open>An invalid target\<close>





section \<open>Dry runs\<close>

text \<open>
  Claim C8, as the code has it. A run with \<^verbatim>\<open>MIGRATE_DRYRUN\<close> invokes no handler, does
  not remove the cache, and leaves the configuration version and the tables as they were.
  It displays the plan when it gets to it, that is when the run is not skipped, version
  detection returns, and the plan is not empty or a migrate command was given; it then
  ends the process right after the status lines.
\<close>

theorem dry_run_mutates_nothing:
  assumes "MIGRATE_DRYRUN p"
  shows "durable (snd (snd (initialize p c srv w))) = durable w
     \<and> acted (snd (snd (initialize p c srv w))) = acted w
     \<and> (\<forall>plan srv2 w2.
          \<not> SKIP_MIGRATIONS p \<and> prepared p c srv w = (Returns (), plan, srv2, w2)
            \<and> (plan \<noteq> [] \<or> MIGRATE_CMD p \<noteq> None)
          \<longrightarrow> (\<exists>migrations. infos (loadedMigrations srv2) plan = Some migrations
                \<and> initialize p c srv w =
                    (Exits, srv2, w2\<lparr>trace := trace w2 @ status_lines p srv2 migrations\<rparr>)))"
proof (cases "SKIP_MIGRATIONS p")
  case True
  then show ?thesis by (simp add: initialize_skipped)
next
  case False
  obtain r plan srv2 w2 where pr: "prepared p c srv w = (r, plan, srv2, w2)"
    by (cases "prepared p c srv w")
  note fr = prepared_frame [OF pr]
  from infos_Some [OF fr(3)] obtain ms where ms: "infos (loadedMigrations srv2) plan = Some ms" ..
  show ?thesis
  proof (cases "r = Returns ()")
    case stopped: False
    from initialize_stopped [OF False pr stopped] fr(1,2) pr stopped show ?thesis by simp
  next
    case True
    with pr have pr': "prepared p c srv w = (Returns (), plan, srv2, w2)" by simp
    show ?thesis
    proof (cases "plan = [] \<and> MIGRATE_CMD p = None")
      case True
      with initialize_nothing_to_do [OF False pr'] fr(1,2) pr' show ?thesis by simp
    next
      case False
      then have go: "plan \<noteq> [] \<or> MIGRATE_CMD p \<noteq> None" by simp
      have i: "initialize p c srv w =
           (Exits, srv2, w2\<lparr>trace := trace w2 @ status_lines p srv2 ms\<rparr>)"
        by (rule initialize_dry_run [OF \<open>\<not> SKIP_MIGRATIONS p\<close> pr' go assms ms])
      have a: "acted (w2\<lparr>trace := trace w2 @ status_lines p srv2 ms\<rparr>) = acted w2"
        by (simp add: acted_def status_lines_def type_lines_def change_line_def Let_def)
      from i a fr(1,2) pr' ms show ?thesis by simp
    qed
  qed
qed

lemma prepared_dry_up:
  "prepared dry_up_process one_unit (new_MigrationService dry_up_process) (a_world v100)
   = (Returns (), [file_a],
      \<lparr>targetVersion = Valid v120, configVersion = Valid v100, dbVersion = Valid v100,
       loadedMigrations = [(''v1_1_0-1-a.js'', migration Database succeeding None)]\<rparr>,
      \<lparr>botpress_config_version = Valid v100,
       srv_metadata = [Valid v100], srv_migrations = [],
       cache_exists = True,
       trace = [Glob ''migrations'', Require ''migrations/v1_1_0-1-a.js'']\<rparr>)"
  by (simp add: prepared_def initialize_def getAllMigrations_def getMigrations_def
      descriptor_def basename_def replace_underscores_def strip_js_def Number_of_examples_def
      valid_of_examples_def sortBy_date_def Let_def core_root_def module_root_def
      detectAndSetupVersions_def invalid_target_def truthy_def getCurrentDbVersion_def
      new_MigrationService_def cmd_isDown_def displayMigrationStatus_def status_lines_def
      type_lines_def change_line_def emit_def log_def dry_up_process_def one_unit_def v100_def
      v110_def v120_def succeeding_def file_a_def migration_def a_process_def on_disk_def
      a_world_def getMigrationsToExecute_def filterMigrations_def in_range_def content_ok_def
      compareAscending_def js_eq_def js_gt_def satisfies_def gt_def lte_def compare_def
      compareMain_def comparePre_def compareNumbers_def same_tuple_def)

text \<open>
  A dry run of \<^verbatim>\<open>migrate up\<close> from 1.0.0 to 1.2.0 with one unit on disk: the plan is that
  unit, the process ends after the display, and nothing has changed.
\<close>

theorem dry_run_mutates_nothing_witness:
  "MIGRATE_DRYRUN dry_up_process \<and> \<not> SKIP_MIGRATIONS dry_up_process
   \<and> fst (prepared dry_up_process one_unit (new_MigrationService dry_up_process) (a_world v100))
       = Returns ()
   \<and> fst (snd (prepared dry_up_process one_unit (new_MigrationService dry_up_process)
            (a_world v100))) = [file_a]
   \<and> durable (snd (snd (initialize dry_up_process one_unit
            (new_MigrationService dry_up_process) (a_world v100))))
       = (Valid v100, [Valid v100], [], True)
   \<and> acted (snd (snd (initialize dry_up_process one_unit
            (new_MigrationService dry_up_process) (a_world v100)))) = []
   \<and> fst (initialize dry_up_process one_unit (new_MigrationService dry_up_process)
            (a_world v100)) = Exits"
proof -
  have h: "MIGRATE_DRYRUN dry_up_process" "\<not> SKIP_MIGRATIONS dry_up_process"
    by (simp_all add: dry_up_process_def a_process_def)
  show ?thesis
    using dry_run_mutates_nothing [OF h(1), of one_unit "new_MigrationService dry_up_process"
        "a_world v100"] h
    by (auto simp: prepared_dry_up a_world_parts)
qed

lemma dry_bad_target_run:
  "initialize dry_bad_target_process one_unit (new_MigrationService dry_bad_target_process)
     (a_world v100)
   = (Exits,
      \<lparr>targetVersion = Invalid ''not-a-version'',
       configVersion = Invalid ''undefined'',
       dbVersion = Invalid ''undefined'',
       loadedMigrations = [(''v1_1_0-1-a.js'', migration Database succeeding None)]\<rparr>,
      \<lparr>botpress_config_version = Valid v100,
       srv_metadata = [Valid v100], srv_migrations = [],
       cache_exists = True,
       trace =
         [Glob ''migrations'', Require ''migrations/v1_1_0-1-a.js'',
          Log Err
           (Text ''A target version was specified but the format is invalid. Valid format: 12.0.0'')]\<rparr>)"
  by (simp add: initialize_def getAllMigrations_def getMigrations_def descriptor_def
      basename_def replace_underscores_def strip_js_def Number_of_examples_def
      valid_of_examples_def sortBy_date_def Let_def core_root_def module_root_def
      detectAndSetupVersions_def invalid_target_def truthy_def new_MigrationService_def
      emit_def log_def dry_bad_target_process_def one_unit_def v100_def v110_def v120_def
      succeeding_def file_a_def migration_def a_process_def on_disk_def a_world_def)

text \<open>
  Claim C8 as stated fails: a dry run of \<^verbatim>\<open>migrate up\<close> with the target
  \<^verbatim>\<open>not-a-version\<close> ends the process with a single line logged, the error about the
  target; the plan is not displayed.
\<close>

theorem dry_run_without_display:
  "MIGRATE_DRYRUN dry_bad_target_process
   \<and> MIGRATE_CMD dry_bad_target_process = Some ''up''
   \<and> fst (initialize dry_bad_target_process one_unit
        (new_MigrationService dry_bad_target_process) (a_world v100)) = Exits
   \<and> logged (trace (snd (snd (initialize dry_bad_target_process one_unit
        (new_MigrationService dry_bad_target_process) (a_world v100)))))
       = [(Err, Text ''A target version was specified but the format is invalid. Valid format: 12.0.0'')]"
  by (simp add: dry_bad_target_run) (simp add: dry_bad_target_process_def a_process_def)

section \<open>The series of handlers\<close>

lemma run_each_ignored:
  "ignored p (filename f) \<Longrightarrow>
   run_each p srv (f # fs) hf w =
     run_each p srv fs hf
       (log Info (Text (''Skipping ignored migration file '' @ quoted (filename f))) w)"
  by simp

lemma run_each_resolves:
  assumes "\<not> ignored p (filename f)" and "called p srv f = Some (Resolves r)"
  shows "run_each p srv (f # fs) hf w =
           run_each p srv fs (hf \<or> \<not> success r) (emit (outcome_line r) (running p f w))"
  using assms
  by (auto simp: called_def outcome_line_def running_def log_def Let_def split: option.splits)

lemma run_each_rejects:
  assumes "\<not> ignored p (filename f)" and "called p srv f = Some (Rejects e)"
  shows "run_each p srv (f # fs) hf w = (Throws e, running p f w)"
  using assms
  by (auto simp: called_def running_def Let_def split: option.splits)

lemma run_each_uncallable:
  assumes "\<not> ignored p (filename f)" and "called p srv f = None"
  shows "run_each p srv (f # fs) hf w
           = (Throws ''TypeError'', log Info (Text (''Running '' @ filename f)) w)"
  using assms
  by (auto simp: called_def Let_def split: option.splits)

lemma resolvesE:
  assumes "resolves p srv f"
  obtains r where "called p srv f = Some (Resolves r)"
  using assms by (auto simp: resolves_def split: option.splits handler.splits)

lemma invoked_running [simp]:
  "invoked (running p f w) = invoked w @ [Invoke (filename f) (cmd_isDown p)]"
  by (simp add: running_def)

lemma durable_running [simp]: "durable (running p f w) = durable w"
  by (simp add: running_def)

lemma is_Invoke_outcome_line [simp]: "\<not> is_Invoke (outcome_line r)"
  by (simp add: outcome_line_def)

lemma run_each_resolving:
  assumes "\<forall>f \<in> set fs. ignored p (filename f) \<or> resolves p srv f"
  shows "\<exists>w'. run_each p srv fs hf w = (Returns (hf \<or> some_failure p srv fs), w')
           \<and> invoked w' = invoked w @ invocations p fs \<and> durable w' = durable w"
  using assms
proof (induction fs arbitrary: hf w)
  case Nil
  then show ?case by (simp add: some_failure_def executed_def invocations_def)
next
  case (Cons f fs)
  from Cons.prems have rest: "\<forall>f \<in> set fs. ignored p (filename f) \<or> resolves p srv f" by simp
  show ?case
  proof (cases "ignored p (filename f)")
    case True
    let ?w = "log Info (Text (''Skipping ignored migration file '' @ quoted (filename f))) w"
    from Cons.IH [OF rest, of hf ?w] obtain w' where
      "run_each p srv fs hf ?w = (Returns (hf \<or> some_failure p srv fs), w')"
      "invoked w' = invoked ?w @ invocations p fs" "durable w' = durable ?w" by blast
    with True show ?thesis
      by (simp add: some_failure_def executed_def invocations_def del: run_each.simps)
         (simp add: run_each_ignored [OF True])
  next
    case False
    with Cons.prems have "resolves p srv f" by simp
    then obtain r where r: "called p srv f = Some (Resolves r)" by (rule resolvesE)
    let ?w = "emit (outcome_line r) (running p f w)"
    from Cons.IH [OF rest, of "hf \<or> \<not> success r" ?w] obtain w' where
      "run_each p srv fs (hf \<or> \<not> success r) ?w
         = (Returns ((hf \<or> \<not> success r) \<or> some_failure p srv fs), w')"
      "invoked w' = invoked ?w @ invocations p fs" "durable w' = durable ?w" by blast
    with False r show ?thesis
      by (simp add: some_failure_def executed_def invocations_def reports_failure_def
      run_each_resolves [OF False r] disj_ac del: run_each.simps)
  qed
qed

lemma run_each_append:
  "run_each p srv pre hf w = (Returns hf1, w1) \<Longrightarrow>
   run_each p srv (pre @ rest) hf w = run_each p srv rest hf1 w1"
proof (induction pre arbitrary: hf w)
  case Nil
  then show ?case by simp
next
  case (Cons f fs)
  show ?case
  proof (cases "ignored p (filename f)")
    case True
    from Cons.prems have "run_each p srv fs hf
       (log Info (Text (''Skipping ignored migration file '' @ quoted (filename f))) w)
        = (Returns hf1, w1)"
      by (simp only: run_each_ignored [OF True])
    from Cons.IH [OF this] show ?thesis
      by (simp only: append_Cons run_each_ignored [OF True])
  next
    case False
    show ?thesis
    proof (cases "called p srv f")
      case None
      with False Cons.prems show ?thesis
        by (auto simp: called_def Let_def split: option.splits)
    next
      case (Some h)
      show ?thesis
      proof (cases h)
        case (Resolves r)
        with Some have c: "called p srv f = Some (Resolves r)" by simp
        from Cons.prems have "run_each p srv fs (hf \<or> \<not> success r)
            (emit (outcome_line r) (running p f w)) = (Returns hf1, w1)"
          by (simp only: run_each_resolves [OF False c])
        from Cons.IH [OF this] show ?thesis
          by (simp only: append_Cons run_each_resolves [OF False c])
      next
        case (Rejects e)
        with Some have c: "called p srv f = Some (Rejects e)" by simp
        from Cons.prems show ?thesis
          by (simp only: run_each_rejects [OF False c]) simp
      qed
    qed
  qed
qed

lemma run_each_durable:
  "run_each p srv fs hf w = (r, w') \<Longrightarrow> durable w' = durable w"
proof (induction fs arbitrary: hf w)
  case Nil
  then show ?case by simp
next
  case (Cons f fs)
  show ?case
  proof (cases "ignored p (filename f)")
    case True
    from Cons.prems have "run_each p srv fs hf
       (log Info (Text (''Skipping ignored migration file '' @ quoted (filename f))) w) = (r, w')"
      by (simp only: run_each_ignored [OF True])
    from Cons.IH [OF this] show ?thesis by simp
  next
    case False
    show ?thesis
    proof (cases "called p srv f")
      case None
      from Cons.prems show ?thesis
        by (simp only: run_each_uncallable [OF False None]) auto
    next
      case (Some h)
      show ?thesis
      proof (cases h)
        case (Resolves res)
        with Some have c: "called p srv f = Some (Resolves res)" by simp
        from Cons.prems have "run_each p srv fs (hf \<or> \<not> success res)
            (emit (outcome_line res) (running p f w)) = (r, w')"
          by (simp only: run_each_resolves [OF False c])
        from Cons.IH [OF this] show ?thesis by simp
      next
        case (Rejects e)
        with Some have c: "called p srv f = Some (Rejects e)" by simp
        from Cons.prems show ?thesis
          by (simp only: run_each_rejects [OF False c]) auto
      qed
    qed
  qed
qed

lemma invoked_clear_cache [simp]: "invoked (clear_cache p c w) = invoked w"
  by (simp add: clear_cache_def invoked_def emit_def log_def split: option.splits)

lemma invoked_series_start [simp]: "invoked (series_start p c plan w) = invoked w"
  by (simp add: series_start_def)

lemma markers_clear_cache [simp]:
  "botpress_config_version (clear_cache p c w) = botpress_config_version w"
  "srv_metadata (clear_cache p c w) = srv_metadata w"
  by (simp_all add: clear_cache_def emit_def log_def split: option.splits)

lemma markers_series_start [simp]:
  "botpress_config_version (series_start p c plan w) = botpress_config_version w"
  "srv_metadata (series_start p c plan w) = srv_metadata w"
  by (simp_all add: series_start_def emit_def log_def)

lemma executeMigrations_after_series:
  assumes "run_each p srv plan False (series_start p c plan w) = (Returns hasFailures, w3)"
  shows "executeMigrations p c srv plan w =
     (let w4 = (if hasFailures then log Err steps_failed w3 else w3)
      in if hasFailures \<and> \<not> IS_FAILSAFE p then (Exits, w4)
         else (case mergeBotpressConfig_error c of
                 Some e \<Rightarrow> (Throws e, w4)
               | None \<Rightarrow>
                   (Returns (),
                    log Info (Text (''Migration'' @ plural (length plan) @ '' completed successfully! ''))
                      (w4\<lparr>botpress_config_version := targetVersion srv\<rparr>))))"
  using assms
  by (simp add: executeMigrations_def series_start_def Let_def)

lemma executeMigrations_series_throws:
  assumes "run_each p srv plan False (series_start p c plan w) = (Throws e, w3)"
  shows "executeMigrations p c srv plan w = (Throws e, w3)"
  using assms
  by (simp add: executeMigrations_def series_start_def Let_def)

lemma executeMigrations_markers:
  "srv_metadata (snd (executeMigrations p c srv plan w)) = srv_metadata w"
  "botpress_config_version (snd (executeMigrations p c srv plan w))
       = (if fst (executeMigrations p c srv plan w) = Returns () then targetVersion srv
          else botpress_config_version w)"
proof -
  obtain r w3 where s: "run_each p srv plan False (series_start p c plan w) = (r, w3)"
    by (cases "run_each p srv plan False (series_start p c plan w)")
  from run_each_durable [OF s]
  have m: "botpress_config_version w3 = botpress_config_version w"
      "srv_metadata w3 = srv_metadata w"
    by (simp_all add: durable_def)
  show "srv_metadata (snd (executeMigrations p c srv plan w)) = srv_metadata w"
  proof (cases r)
    case (Returns hasFailures)
    with s executeMigrations_after_series [of p srv plan c w hasFailures w3] m show ?thesis
      by (auto simp: Let_def emit_def log_def split: option.splits)
  next
    case Exits
    with s m show ?thesis
      by (simp add: executeMigrations_def series_start_def Let_def)
  next
    case (Throws e)
    with s executeMigrations_series_throws [of p srv plan c w e w3] m show ?thesis by simp
  qed
  show "botpress_config_version (snd (executeMigrations p c srv plan w))
       = (if fst (executeMigrations p c srv plan w) = Returns () then targetVersion srv
          else botpress_config_version w)"
  proof (cases r)
    case (Returns hasFailures)
    with s executeMigrations_after_series [of p srv plan c w hasFailures w3] m show ?thesis
      by (auto simp: Let_def emit_def log_def split: option.splits)
  next
    case Exits
    with s m show ?thesis
      by (simp add: executeMigrations_def series_start_def Let_def)
  next
    case (Throws e)
    with s executeMigrations_series_throws [of p srv plan c w e w3] m show ?thesis by simp
  qed
qed


lemma invoked_status_lines [simp]:
  "invoked (w\<lparr>trace := trace w @ status_lines p srv ms\<rparr>) = invoked w"
  by (simp add: invoked_def status_lines_def type_lines_def change_line_def Let_def)

lemma invoked_config_version [simp]:
  "invoked (w\<lparr>botpress_config_version := v\<rparr>) = invoked w"
  by (simp add: invoked_def)






section \<open>Units that report a failure\<close>





section \<open>Handlers that throw\<close>

text \<open>
  Claim C7, as the code has it. Nothing catches what a handler throws. When the units
  before \<open>u\<close> have run and the handler of \<open>u\<close> rejects with \<open>e\<close>,
  \<^const>\<open>executeMigrations\<close> throws \<open>e\<close>: the invocation of \<open>u\<close> is the last event, so
  no failure is logged and no unit after \<open>u\<close> is invoked, and the configuration version
  is not written.
\<close>

theorem rejecting_handler_ends_the_series:
  assumes "plan = pre @ u # rest"
    and "\<forall>f \<in> set pre. ignored p (filename f) \<or> resolves p srv f"
    and "\<not> ignored p (filename u)"
    and "called p srv u = Some (Rejects e)"
  shows "fst (executeMigrations p c srv plan w) = Throws e
     \<and> invoked (snd (executeMigrations p c srv plan w))
         = invoked w @ invocations p pre @ [Invoke (filename u) (cmd_isDown p)]
     \<and> last (trace (snd (executeMigrations p c srv plan w))) = Invoke (filename u) (cmd_isDown p)
     \<and> botpress_config_version (snd (executeMigrations p c srv plan w))
         = botpress_config_version w"
proof -
  from run_each_resolving [OF assms(2), of False "series_start p c plan w"]
  obtain w1 where s: "run_each p srv pre False (series_start p c plan w)
        = (Returns (False \<or> some_failure p srv pre), w1)"
    and i: "invoked w1 = invoked (series_start p c plan w) @ invocations p pre"
    and d: "durable w1 = durable (series_start p c plan w)"
    by blast
  have "run_each p srv plan False (series_start p c plan w)
          = run_each p srv (u # rest) (False \<or> some_failure p srv pre) w1"
    using run_each_append [OF s, of "u # rest"] by (simp only: assms(1))
  also have "\<dots> = (Throws e, running p u w1)"
    by (rule run_each_rejects [OF assms(3,4)])
  finally have x: "executeMigrations p c srv plan w = (Throws e, running p u w1)"
    by (rule executeMigrations_series_throws)
  have v: "botpress_config_version (running p u w1) = botpress_config_version w"
    using d by (simp add: durable_def running_def emit_def log_def)
  have l: "last (trace (running p u w1)) = Invoke (filename u) (cmd_isDown p)"
    by (simp add: running_def)
  show ?thesis
    using i v l by (simp add: x)
qed

text \<open>
  A failsafe run of three units: the first reports a failure, the second rejects; the
  call throws the error of the second and the configuration version stays at 1.0.0.
\<close>

theorem rejecting_handler_ends_the_series_witness:
  "[file_a, file_b, file_c] = [file_a] @ file_b # [file_c]
   \<and> list_all (\<lambda>f. ignored failsafe_process (filename f) \<or> resolves failsafe_process three_units f)
        [file_a]
   \<and> \<not> ignored failsafe_process (filename file_b)
   \<and> called failsafe_process three_units file_b = Some (Rejects ''connection lost'')
   \<and> fst (executeMigrations failsafe_process (on_disk []) three_units [file_a, file_b, file_c]
        (a_world v100)) = Throws ''connection lost''
   \<and> botpress_config_version (snd (executeMigrations failsafe_process (on_disk []) three_units
        [file_a, file_b, file_c] (a_world v100))) = Valid v100"
proof -
  have h1: "[file_a, file_b, file_c] = [file_a] @ file_b # [file_c]" by simp
  have h2: "\<forall>f \<in> set [file_a].
              ignored failsafe_process (filename f) \<or> resolves failsafe_process three_units f"
    by (simp add: called_def resolves_def ignored_def handler_called_def cmd_isDown_def
      failsafe_process_def three_units_def v100_def v110_def v120_def succeeding_def
      failing_def raising_def file_a_def file_b_def file_c_def migration_def service_def
      a_process_def)
  have h3: "\<not> ignored failsafe_process (filename file_b)"
    by (simp add: called_def resolves_def ignored_def handler_called_def cmd_isDown_def
      failsafe_process_def three_units_def v100_def v110_def v120_def succeeding_def
      failing_def raising_def file_a_def file_b_def file_c_def migration_def service_def
      a_process_def)
  have h4: "called failsafe_process three_units file_b = Some (Rejects ''connection lost'')"
    by (simp add: called_def resolves_def ignored_def handler_called_def cmd_isDown_def
      failsafe_process_def three_units_def v100_def v110_def v120_def succeeding_def
      failing_def raising_def file_a_def file_b_def file_c_def migration_def service_def
      a_process_def)
  have v: "botpress_config_version (a_world v100) = Valid v100" by (simp add: a_world_def)
  show ?thesis
    using rejecting_handler_ends_the_series [OF h1 h2 h3 h4, of "on_disk []" "a_world v100"]
      h2 h3 h4 v
    by simp
qed

text \<open>
  Claim C7 as stated fails: the first of two planned units rejects; the call throws its
  error, no line of level error is logged, and the second unit is not invoked.
\<close>

theorem rejection_is_not_a_reported_failure:
  "called a_process raising_first file_b = Some (Rejects ''connection lost'')
   \<and> fst (executeMigrations a_process (on_disk []) raising_first [file_b, file_c] (a_world v100))
       = Throws ''connection lost''
   \<and> invoked (snd (executeMigrations a_process (on_disk []) raising_first [file_b, file_c]
        (a_world v100))) = [Invoke ''v1_2_0-2-b.js'' False]
   \<and> \<not> list_ex (\<lambda>e. fst e = Err) (logged (trace (snd (executeMigrations a_process (on_disk [])
        raising_first [file_b, file_c] (a_world v100)))))"
  by (simp add: called_def executeMigrations_def clear_cache_def ignored_def handler_called_def
      cmd_isDown_def message_or_def plural_def steps_failed_def emit_def log_def
      raising_first_def v100_def v110_def v120_def succeeding_def raising_def file_b_def
      file_c_def migration_def service_def a_process_def on_disk_def a_world_def invoked_def)

section \<open>When the markers move\<close>

text \<open>
  Claim C4, as the code has it. The service keeps no record of which domain the plan
  touched. \<^const>\<open>executeMigrations\<close> never writes \<^verbatim>\<open>srv_metadata\<close>, and writes the
  target as configuration version exactly when it returns; with handlers that return an
  outcome it returns unless a failure was reported in strict mode (or the write throws),
  so also for an empty plan and, in failsafe mode, after a failure.
  \<^const>\<open>persistMigrationStatus\<close> leaves the configuration version alone and inserts the
  target into \<^verbatim>\<open>srv_metadata\<close> exactly when the database version differs from the target
  and the insertion does not throw, whatever the plan.
\<close>

theorem markers_after_run:
  "srv_metadata (snd (executeMigrations p c srv plan w)) = srv_metadata w
   \<and> botpress_config_version (snd (executeMigrations p c srv plan w))
       = (if fst (executeMigrations p c srv plan w) = Returns () then targetVersion srv
          else botpress_config_version w)
   \<and> ((\<forall>f \<in> set plan. ignored p (filename f) \<or> resolves p srv f)
        \<longrightarrow> fst (executeMigrations p c srv plan w)
            = (if some_failure p srv plan \<and> \<not> IS_FAILSAFE p then Exits
               else (case mergeBotpressConfig_error c of
                       Some e \<Rightarrow> Throws e | None \<Rightarrow> Returns ())))
   \<and> botpress_config_version (snd (persistMigrationStatus c srv logs plan w))
       = botpress_config_version w
   \<and> srv_metadata (snd (persistMigrationStatus c srv logs plan w))
       = (if dbVersion srv \<noteq> targetVersion srv \<and> srv_metadata_insert_error c = None
          then targetVersion srv # srv_metadata w else srv_metadata w)"
proof (intro conjI impI)
  show "srv_metadata (snd (executeMigrations p c srv plan w)) = srv_metadata w"
    by (rule executeMigrations_markers)
  show "botpress_config_version (snd (executeMigrations p c srv plan w))
       = (if fst (executeMigrations p c srv plan w) = Returns () then targetVersion srv
          else botpress_config_version w)"
    by (rule executeMigrations_markers)
next
  assume a: "\<forall>f \<in> set plan. ignored p (filename f) \<or> resolves p srv f"
  from run_each_resolving [OF a, of False "series_start p c plan w"]
  obtain w3 where s: "run_each p srv plan False (series_start p c plan w)
      = (Returns (False \<or> some_failure p srv plan), w3)" by blast
  from executeMigrations_after_series [OF s]
  show "fst (executeMigrations p c srv plan w)
            = (if some_failure p srv plan \<and> \<not> IS_FAILSAFE p then Exits
               else (case mergeBotpressConfig_error c of
                       Some e \<Rightarrow> Throws e | None \<Rightarrow> Returns ()))"
    by (auto simp: Let_def split: option.splits)
next
  show "botpress_config_version (snd (persistMigrationStatus c srv logs plan w))
       = botpress_config_version w"
    by (auto simp: persistMigrationStatus_def Let_def emit_def log_def split: option.splits)
  show "srv_metadata (snd (persistMigrationStatus c srv logs plan w))
       = (if dbVersion srv \<noteq> targetVersion srv \<and> srv_metadata_insert_error c = None
          then targetVersion srv # srv_metadata w else srv_metadata w)"
    by (auto simp: persistMigrationStatus_def Let_def emit_def log_def split: option.splits)
qed

text \<open>
  A failsafe run of two units, the first of which (of type database) reports a failure:
  \<^const>\<open>executeMigrations\<close> returns with the configuration version at the target, and
  \<^const>\<open>persistMigrationStatus\<close> inserts the target as database version.
\<close>

theorem markers_after_run_witness:
  "list_all (\<lambda>f. ignored failsafe_process (filename f) \<or> resolves failsafe_process two_units f)
      [file_a, file_b]
   \<and> some_failure failsafe_process two_units [file_a, file_b]
   \<and> fst (executeMigrations failsafe_process (on_disk []) two_units [file_a, file_b]
        (a_world v100)) = Returns ()
   \<and> botpress_config_version (snd (executeMigrations failsafe_process (on_disk []) two_units
        [file_a, file_b] (a_world v100))) = Valid v120
   \<and> srv_metadata (snd (persistMigrationStatus (on_disk []) two_units [] [file_a, file_b]
        (a_world v100))) = [Valid v120, Valid v100]"
proof -
  have h1: "\<forall>f \<in> set [file_a, file_b].
              ignored failsafe_process (filename f) \<or> resolves failsafe_process two_units f"
    by (simp add: called_def resolves_def reports_failure_def some_failure_def executed_def
      ignored_def handler_called_def cmd_isDown_def failsafe_process_def two_units_def v100_def
      v110_def v120_def succeeding_def failing_def file_a_def file_b_def migration_def
      service_def a_process_def on_disk_def a_world_def)
  have h2: "some_failure failsafe_process two_units [file_a, file_b]"
    by (simp add: called_def resolves_def reports_failure_def some_failure_def executed_def
      ignored_def handler_called_def cmd_isDown_def failsafe_process_def two_units_def v100_def
      v110_def v120_def succeeding_def failing_def file_a_def file_b_def migration_def
      service_def a_process_def on_disk_def a_world_def)
  have e: "IS_FAILSAFE failsafe_process" "mergeBotpressConfig_error (on_disk []) = None"
      "srv_metadata_insert_error (on_disk []) = None"
      "targetVersion two_units = Valid v120" "dbVersion two_units = Valid v100"
      "srv_metadata (a_world v100) = [Valid v100]" "Valid v100 \<noteq> Valid v120"
    by (simp_all add: failsafe_process_def two_units_def v100_def v110_def v120_def
      succeeding_def failing_def file_a_def file_b_def migration_def service_def a_process_def
      on_disk_def a_world_def)
  show ?thesis
    using markers_after_run [where p = failsafe_process and c = "on_disk []" and srv = two_units
        and plan = "[file_a, file_b]" and w = "a_world v100" and logs = "[]"] h1 h2 e
    by simp
qed

text \<open>
  Claim C4 as stated fails: a failsafe run whose only unit, of type database, reports a
  failure returns with the configuration version at the target, though no unit of type
  config or content was planned, and with the target inserted as database version.
\<close>

theorem failsafe_failure_advances_both_markers:
  "IS_FAILSAFE failsafe_process
   \<and> fst (initialize failsafe_process failing_unit (new_MigrationService failsafe_process)
        (a_world v100)) = Returns ()
   \<and> (Err, Text ''- table is locked'')
       \<in> set (logged (trace (snd (snd (initialize failsafe_process failing_unit
            (new_MigrationService failsafe_process) (a_world v100))))))
   \<and> botpress_config_version (a_world v100) = Valid v100
   \<and> botpress_config_version (snd (snd (initialize failsafe_process failing_unit
        (new_MigrationService failsafe_process) (a_world v100)))) = Valid v120
   \<and> srv_metadata (snd (snd (initialize failsafe_process failing_unit
        (new_MigrationService failsafe_process) (a_world v100)))) = [Valid v120, Valid v100]"
  by (simp add: initialize_def getAllMigrations_def getMigrations_def descriptor_def
      basename_def replace_underscores_def strip_js_def Number_of_examples_def
      valid_of_examples_def sortBy_date_def Let_def core_root_def module_root_def
      detectAndSetupVersions_def invalid_target_def truthy_def getCurrentDbVersion_def
      new_MigrationService_def cmd_isDown_def displayMigrationStatus_def status_lines_def
      type_lines_def change_line_def emit_def log_def getMigrationsToExecute_def
      filterMigrations_def in_range_def content_ok_def compareAscending_def js_eq_def js_gt_def
      satisfies_def gt_def lte_def compare_def compareMain_def comparePre_def
      compareNumbers_def same_tuple_def executeMigrations_def clear_cache_def ignored_def
      handler_called_def message_or_def plural_def steps_failed_def persistMigrationStatus_def
      failsafe_process_def failing_unit_def v100_def v110_def v120_def failing_def
      succeeding_def file_a_def migration_def a_process_def on_disk_def a_world_def)

section \<open>Failures while recording\<close>

text \<open>
  Claim C9, as the code has it. A failure of the insertion into \<^verbatim>\<open>srv_migrations\<close> is
  logged as a warning, first thing, and has no part in how
  \<^const>\<open>persistMigrationStatus\<close> ends. A failure of the insertion into \<^verbatim>\<open>srv_metadata\<close>,
  attempted when the database version differs from the target, is thrown on to the caller,
  as is a failure of \<^verbatim>\<open>coreMigrationCompleted\<close>; otherwise the call returns.
\<close>

theorem persist_failures:
  "(case srv_migrations_insert_error c of
      Some e \<Rightarrow>
        take (Suc (length (trace w))) (trace (snd (persistMigrationStatus c srv logs plan w)))
          = trace w @ [Log Warn (Text ''Couldn't save logs to database'')]
        \<and> srv_migrations (snd (persistMigrationStatus c srv logs plan w)) = srv_migrations w
    | None \<Rightarrow>
        srv_migrations (snd (persistMigrationStatus c srv logs plan w))
          = srv_migrations w @ [\<lparr>initialVersion = configVersion srv,
                                 entry_targetVersion = targetVersion srv, details = logs\<rparr>])
   \<and> fst (persistMigrationStatus c srv logs plan w)
       = (case (if dbVersion srv \<noteq> targetVersion srv then srv_metadata_insert_error c else None) of
            Some e \<Rightarrow> Throws e
          | None \<Rightarrow> (case coreMigrationCompleted_error c of
                       Some e \<Rightarrow> Throws e | None \<Rightarrow> Returns ()))"
proof (intro conjI)
  let ?entry = "\<lparr>initialVersion = configVersion srv,
                 entry_targetVersion = targetVersion srv, details = logs\<rparr>"
  show "case srv_migrations_insert_error c of
      Some e \<Rightarrow>
        take (Suc (length (trace w))) (trace (snd (persistMigrationStatus c srv logs plan w)))
          = trace w @ [Log Warn (Text ''Couldn't save logs to database'')]
        \<and> srv_migrations (snd (persistMigrationStatus c srv logs plan w)) = srv_migrations w
    | None \<Rightarrow>
        srv_migrations (snd (persistMigrationStatus c srv logs plan w))
          = srv_migrations w @ [?entry]"
  proof (cases "srv_migrations_insert_error c")
    case None
    then show ?thesis
      by (auto simp: persistMigrationStatus_def Let_def emit_def split: option.splits)
  next
    case (Some e)
    then show ?thesis
      by (auto simp: persistMigrationStatus_def Let_def emit_def log_def split: option.splits)
  qed
  show "fst (persistMigrationStatus c srv logs plan w)
       = (case (if dbVersion srv \<noteq> targetVersion srv then srv_metadata_insert_error c else None) of
            Some e \<Rightarrow> Throws e
          | None \<Rightarrow> (case coreMigrationCompleted_error c of
                       Some e \<Rightarrow> Throws e | None \<Rightarrow> Returns ()))"
    by (simp add: persistMigrationStatus_def Let_def split: option.splits)
qed

text \<open>
  When the insertion into \<^verbatim>\<open>srv_migrations\<close> throws, the warning is the first line logged
  and the call returns.
\<close>

theorem persist_failures_witness:
  "srv_migrations_insert_error no_audit_table = Some ''no such table''
   \<and> fst (persistMigrationStatus no_audit_table (service v120 v100 v100 []) [] [] (a_world v100))
       = Returns ()
   \<and> take 1 (trace (snd (persistMigrationStatus no_audit_table (service v120 v100 v100 []) [] []
        (a_world v100)))) = [Log Warn (Text ''Couldn't save logs to database'')]"
proof -
  have e: "srv_migrations_insert_error no_audit_table = Some ''no such table''"
      "srv_metadata_insert_error no_audit_table = None"
      "coreMigrationCompleted_error no_audit_table = None"
      "trace (a_world v100) = []"
    by (simp_all add: no_audit_table_def v100_def v110_def v120_def succeeding_def migration_def
      service_def on_disk_def core_root_def a_world_def)
  show ?thesis
    using persist_failures [where c = no_audit_table and w = "a_world v100"
        and srv = "service v120 v100 v100 []" and logs = "[]" and plan = "[]"] e
    by simp
qed

text \<open>
  Claim C9 as stated fails: when the insertion into \<^verbatim>\<open>srv_metadata\<close> throws,
  \<^const>\<open>persistMigrationStatus\<close> throws the same error and logs nothing.
\<close>

theorem marker_write_failure_propagates:
  "srv_metadata_insert_error read_only_metadata = Some ''database is read-only''
   \<and> fst (persistMigrationStatus read_only_metadata (service v120 v100 v100 []) [] []
        (a_world v100)) = Throws ''database is read-only''
   \<and> logged (trace (snd (persistMigrationStatus read_only_metadata (service v120 v100 v100 [])
        [] [] (a_world v100)))) = []"
  by (simp add: persistMigrationStatus_def emit_def log_def read_only_metadata_def v100_def
      v110_def v120_def succeeding_def migration_def service_def on_disk_def core_root_def
      a_world_def)

end
